theory Spec2Isabelle
  imports
    Main
    "HOL-Library.AList"
    "HOL-Library.Multiset"
    "HOL-Library.Char_ord"
    "HOL-Library.List_Lexorder"
    "HOL-Library.Product_Lexorder"
begin

section \<open>Python values, dictionaries, exceptions and the log\<close>

text \<open>
  The hooks read charm configuration and relation settings, which arrive as decoded
  JSON scalars: \<open>None\<close>, a boolean, an integer or a string. Template contexts
  additionally hold lists and nested dictionaries. Dictionaries are association lists
  with distinct keys; only lookups and key sets are meaningful, since a Python 2
  dictionary has no order of its own.
\<close>

datatype pyval = PNone | PBool bool | PInt int | PStr string

datatype pyobj = PVal pyval | PList "pyobj list" | PDict "(string \<times> pyobj) list"

type_synonym pydict = "(string \<times> pyobj) list"

type_synonym rdata = "(string \<times> pyval) list"

datatype exn = Exception string | ValueError | TypeError | AttributeError | IndexError

datatype level = WARNING | ERROR

text \<open>A call \<open>log(msg, level)\<close>; the level is \<open>None\<close> when the call passes none.\<close>

type_synonym log_entry = "string \<times> level option"

text \<open>Truth value of a scalar, as \<open>if v\<close>, \<open>not v\<close> and \<open>a or b\<close> use it.\<close>

fun truthy :: "pyval \<Rightarrow> bool" where
  "truthy PNone = False"
| "truthy (PBool b) = b"
| "truthy (PInt i) = (i \<noteq> 0)"
| "truthy (PStr s) = (s \<noteq> [])"

definition py_or :: "pyval \<Rightarrow> pyval \<Rightarrow> pyval" where
  "py_or a b = (if truthy a then a else b)"

text \<open>\<open>str(v)\<close>, which is what \<open>%s\<close> and \<open>{0}\<close> render.\<close>

definition digit_char :: "nat \<Rightarrow> char" where
  "digit_char d = ''0123456789'' ! d"

fun digits10 :: "nat \<Rightarrow> string" where
  "digits10 n = (if n < 10 then [digit_char n] else digits10 (n div 10) @ [digit_char (n mod 10)])"

declare digits10.simps [simp del]

definition int_str :: "int \<Rightarrow> string" where
  "int_str i = (if i < 0 then CHR ''-'' # digits10 (nat (- i)) else digits10 (nat i))"

fun py_str :: "pyval \<Rightarrow> string" where
  "py_str PNone = ''None''"
| "py_str (PBool b) = (if b then ''True'' else ''False'')"
| "py_str (PInt i) = int_str i"
| "py_str (PStr s) = s"

text \<open>\<open>d.get(k)\<close> on relation settings: \<open>None\<close> for a missing key.\<close>

definition rget :: "rdata \<Rightarrow> string \<Rightarrow> pyval" where
  "rget rd k = (case map_of rd k of None \<Rightarrow> PNone | Some v \<Rightarrow> v)"

subsection \<open>String operations of the standard library\<close>

text \<open>\<open>str.upper()\<close> on byte strings: the ASCII letters a-z are mapped, all else is kept.\<close>

definition ascii_upper :: "char \<Rightarrow> char" where
  "ascii_upper c =
     (case map_of (zip ''abcdefghijklmnopqrstuvwxyz'' ''ABCDEFGHIJKLMNOPQRSTUVWXYZ'') c of
        Some u \<Rightarrow> u
      | None \<Rightarrow> c)"

definition upper :: "string \<Rightarrow> string" where
  "upper s = map ascii_upper s"

text \<open>\<open>s.split()\<close>: maximal runs of non-whitespace bytes.\<close>

definition is_space :: "char \<Rightarrow> bool" where
  "is_space c = (c \<in> set [CHR '' '', CHR 0x09, CHR 0x0A, CHR 0x0B, CHR 0x0C, CHR 0x0D])"

fun split_ws_from :: "string \<Rightarrow> string \<Rightarrow> string list" where
  "split_ws_from cur [] = (if cur = [] then [] else [cur])"
| "split_ws_from cur (c # cs) =
     (if is_space c
      then (if cur = [] then split_ws_from [] cs else cur # split_ws_from [] cs)
      else split_ws_from (cur @ [c]) cs)"

definition split_ws :: "string \<Rightarrow> string list" where
  "split_ws s = split_ws_from [] s"

text \<open>\<open>s.split(sep)\<close> for a one-character separator: empty pieces are kept.\<close>

fun split_sep_from :: "char \<Rightarrow> string \<Rightarrow> string \<Rightarrow> string list" where
  "split_sep_from sep cur [] = [cur]"
| "split_sep_from sep cur (c # cs) =
     (if c = sep then cur # split_sep_from sep [] cs else split_sep_from sep (cur @ [c]) cs)"

definition split_sep :: "char \<Rightarrow> string \<Rightarrow> string list" where
  "split_sep sep s = split_sep_from sep [] s"

section \<open>The hook environment\<close>

text \<open>
  Everything the context generators read from outside: the charm configuration, the
  relation store, and the helpers of charmhelpers and the standard library whose code is
  not part of the hooks. \<open>pwgen\<close> is the password the generator would return.
\<close>

record env =
  config :: "string \<Rightarrow> pyval"
  relation_ids :: "string \<Rightarrow> string list"
  related_units :: "string \<Rightarrow> string list"
  relation_get :: "string \<Rightarrow> string \<Rightarrow> rdata"
  format_ipv6_addr :: "pyval \<Rightarrow> pyval"
  bool_from_string :: "pyval \<Rightarrow> exn + bool"
  pwgen :: string
  get_cert :: "pyval \<times> pyval"
  get_ca_cert :: pyval
  b64decode :: "string \<Rightarrow> exn + string"
  json_loads :: "string \<Rightarrow> exn + pyobj"
  path_exists :: "string \<Rightarrow> bool"

section \<open>IdentityServiceContext\<close>

definition VALID_ENDPOINT_TYPES :: "(string \<times> string) list" where
  "VALID_ENDPOINT_TYPES =
     [(''PUBLICURL'', ''publicURL''),
      (''INTERNALURL'', ''internalURL''),
      (''ADMINURL'', ''adminURL'')]"

definition normalize :: "string \<Rightarrow> log_entry list \<times> (exn + string)" where
  "normalize endpoint_type =
     (let normalized_form = map_of VALID_ENDPOINT_TYPES (upper endpoint_type)
      in if normalized_form = None \<or> normalized_form = Some []
         then (let msg = ''Endpoint type specified '' @ endpoint_type
                           @ '' is not a valid endpoint type''
               in ([(msg, Some ERROR)], Inl (Exception msg)))
         else (case normalized_form of
                 Some s \<Rightarrow> ([], Inr s)
               | None \<Rightarrow> ([], Inl (Exception []))))"

text \<open>
  \<open>context_complete\<close> is charmhelpers' helper, outside the hooks: a context is
  complete when none of its values is \<open>None\<close> or the empty string. The hook relies
  on it checking every key that is present ("the context is incomplete without the admin
  domain id").
\<close>

definition context_complete :: "(string \<times> pyval) list \<Rightarrow> bool" where
  "context_complete ctxt = list_all (\<lambda>(k, v). v \<noteq> PNone \<and> v \<noteq> PStr []) ctxt"

text \<open>The body of the loop up to the completeness check: the record's extracted fields.\<close>

definition local_ctxt :: "env \<Rightarrow> rdata \<Rightarrow> (string \<times> pyval) list" where
  "local_ctxt e rd =
     (let serv_host = rget rd ''service_host'';
          serv_host = py_or (format_ipv6_addr e serv_host) serv_host;
          lc = [(''service_port'', rget rd ''service_port''),
                (''service_host'', serv_host),
                (''service_protocol'', py_or (rget rd ''service_protocol'') (PStr ''http'')),
                (''api_version'',
                   (case map_of rd ''api_version'' of None \<Rightarrow> PStr ''2'' | Some v \<Rightarrow> v))]
      in if rget lc ''api_version'' = PStr ''3''
         then (if \<not> truthy (config e ''default_domain'')
               then lc @ [(''admin_domain_id'', rget rd ''admin_domain_id'')]
               else lc)
         else lc)"

text \<open>\<open>"%(service_protocol)s://%(service_host)s:%(service_port)s/v2.0" % local_ctxt\<close>\<close>

definition endpoint_of :: "(string \<times> pyval) list \<Rightarrow> string" where
  "endpoint_of lc =
     py_str (rget lc ''service_protocol'') @ ''://'' @ py_str (rget lc ''service_host'')
       @ '':'' @ py_str (rget lc ''service_port'') @ ''/v2.0''"

definition as_ctxt :: "(string \<times> pyval) list \<Rightarrow> pydict" where
  "as_ctxt lc = map (\<lambda>(k, v). (k, PVal v)) lc"

text \<open>
  The region set is kept as a duplicate-free list; \<open>regions.add\<close> is \<open>List.insert\<close>.
  \<open>region.split()\<close> exists only on strings.
\<close>

definition add_regions ::
  "(string \<times> pyval) list \<Rightarrow> pyval \<Rightarrow> (string \<times> string) list \<Rightarrow> exn + (string \<times> string) list" where
  "add_regions lc region regions =
     (case region of
        PNone \<Rightarrow> Inr regions
      | PStr s \<Rightarrow>
          (let endpoint = endpoint_of lc
           in Inr (fold (\<lambda>reg rs. List.insert (endpoint, reg) rs) (split_ws s) regions))
      | _ \<Rightarrow> Inl AttributeError)"

type_synonym id_state = "pydict \<times> (string \<times> string) list"

definition identity_unit :: "env \<Rightarrow> id_state \<Rightarrow> rdata \<Rightarrow> exn + id_state" where
  "identity_unit e st rd =
     (let region = rget rd ''region'';
          lc = local_ctxt e rd
      in if \<not> context_complete lc then Inr st
         else (case add_regions lc region (snd st) of
                 Inl x \<Rightarrow> Inl x
               | Inr regions \<Rightarrow>
                   Inr (if length (fst st) = 0 then as_ctxt lc else fst st, regions)))"

fun identity_units :: "env \<Rightarrow> string \<Rightarrow> string list \<Rightarrow> id_state \<Rightarrow> exn + id_state" where
  "identity_units e rid [] st = Inr st"
| "identity_units e rid (unit # units) st =
     (case identity_unit e st (relation_get e rid unit) of
        Inl x \<Rightarrow> Inl x
      | Inr st' \<Rightarrow> identity_units e rid units st')"

fun identity_rids :: "env \<Rightarrow> string list \<Rightarrow> id_state \<Rightarrow> exn + id_state" where
  "identity_rids e [] st = Inr st"
| "identity_rids e (rid # rids) st =
     (case identity_units e rid (related_units e rid) st of
        Inl x \<Rightarrow> Inl x
      | Inr st' \<Rightarrow> identity_rids e rids st')"

text \<open>
  \<open>sorted\<close> on the region dictionaries: Python 2 orders two dictionaries with the same
  two keys by the value of \<open>endpoint\<close>, then by the value of \<open>title\<close>, which is the
  order of the pairs.
\<close>

definition region_entry :: "string \<times> string \<Rightarrow> pyobj" where
  "region_entry r = PDict [(''endpoint'', PVal (PStr (fst r))), (''title'', PVal (PStr (snd r)))]"

text \<open>The list comprehension \<open>[self.normalize(e) for e in ...]\<close>: the first failure raises.\<close>

fun normalize_each :: "string list \<Rightarrow> log_entry list \<times> (exn + string list)" where
  "normalize_each [] = ([], Inr [])"
| "normalize_each (x # xs) =
     (case normalize x of
        (lg, Inl err) \<Rightarrow> (lg, Inl err)
      | (lg, Inr n) \<Rightarrow>
          (case normalize_each xs of
             (lg', Inl err) \<Rightarrow> (lg @ lg', Inl err)
           | (lg', Inr ns) \<Rightarrow> (lg @ lg', Inr (n # ns))))"

definition endpoint_types :: "pydict \<Rightarrow> pyval \<Rightarrow> log_entry list \<times> (exn + pydict)" where
  "endpoint_types ctxt ep_types =
     (if truthy ep_types
      then (case ep_types of
              PStr s \<Rightarrow>
                (case normalize_each (split_sep CHR '','' s) of
                   (lg, Inl err) \<Rightarrow> (lg, Inl err)
                 | (lg, Inr []) \<Rightarrow> (lg, Inl IndexError)
                 | (lg, Inr (p # rest)) \<Rightarrow>
                     (let ctxt = AList.update ''primary_endpoint'' (PVal (PStr p)) ctxt
                      in (lg, Inr (case rest of
                                     [] \<Rightarrow> ctxt
                                   | q # _ \<Rightarrow>
                                       AList.update ''secondary_endpoint'' (PVal (PStr q)) ctxt))))
            | _ \<Rightarrow> ([], Inl AttributeError))
      else ([], Inr ctxt))"

definition identity_call :: "env \<Rightarrow> log_entry list \<times> (exn + pydict)" where
  "identity_call e =
     (let log0 = [(''Generating template context for identity-service'', None)]
      in case identity_rids e (relation_ids e ''identity-service'') ([], []) of
           Inl x \<Rightarrow> (log0, Inl x)
         | Inr (ctxt, regions) \<Rightarrow>
             (let ctxt = (if length regions > 1
                          then AList.update ''regions''
                                 (PList (map region_entry (sort regions))) ctxt
                          else ctxt);
                  (lg, res) = endpoint_types ctxt (config e ''endpoint-type'')
              in (log0 @ lg, res)))"

section \<open>HorizonContext\<close>

definition horizon_call :: "env \<Rightarrow> exn + pydict" where
  "horizon_call e =
     (case bool_from_string e (config e ''offline-compression'') of
        Inl x \<Rightarrow> Inl x
      | Inr compress_offline \<Rightarrow>
     (case bool_from_string e (config e ''debug'') of
        Inl x \<Rightarrow> Inl x
      | Inr debug \<Rightarrow>
     (case bool_from_string e (config e ''ubuntu-theme'') of
        Inl x \<Rightarrow> Inl x
      | Inr ubuntu_theme \<Rightarrow>
          Inr [(''compress_offline'', PVal (PBool compress_offline)),
               (''debug'', PVal (PBool debug)),
               (''customization_module'', PVal (config e ''customization-module'')),
               (''default_role'', PVal (config e ''default-role'')),
               (''webroot'', PVal (py_or (config e ''webroot'') (PStr ''/''))),
               (''ubuntu_theme'', PVal (PBool ubuntu_theme)),
               (''default_theme'', PVal (config e ''default-theme'')),
               (''custom_theme'', PVal (config e ''custom-theme'')),
               (''secret'', PVal (py_or (config e ''secret'') (PStr (pwgen e)))),
               (''support_profile'',
                  PVal (if config e ''profile'' = PStr ''cisco''
                        then config e ''profile'' else PNone)),
               (''neutron_network_dvr'', PVal (config e ''neutron-network-dvr'')),
               (''neutron_network_l3ha'', PVal (config e ''neutron-network-l3ha'')),
               (''neutron_network_lb'', PVal (config e ''neutron-network-lb'')),
               (''neutron_network_firewall'', PVal (config e ''neutron-network-firewall'')),
               (''neutron_network_vpn'', PVal (config e ''neutron-network-vpn'')),
               (''cinder_backup'', PVal (config e ''cinder-backup'')),
               (''allow_password_autocompletion'',
                  PVal (config e ''allow-password-autocompletion'')),
               (''password_retrieve'', PVal (config e ''password-retrieve'')),
               (''default_domain'', PVal (config e ''default-domain'')),
               (''multi_domain'',
                  PVal (PBool (if truthy (config e ''default-domain'') then False else True))),
               (''default_create_volume'', PVal (config e ''default-create-volume'')),
               (''image_formats'', PVal (config e ''image-formats''))])))"

section \<open>ApacheContext\<close>

text \<open>\<open>all(t)\<close> for a tuple or list of scalars.\<close>

definition py_all :: "pyval list \<Rightarrow> bool" where
  "py_all vs = list_all truthy vs"

definition apache_call :: "env \<Rightarrow> log_entry list \<times> pydict" where
  "apache_call e =
     (let ctxt = [(''http_port'', PVal (PInt 70)),
                  (''https_port'', PVal (PInt 433)),
                  (''enforce_ssl'', PVal (PBool False)),
                  (''hsts_max_age_seconds'', PVal (config e ''hsts-max-age-seconds'')),
                  (''custom_theme'', PVal (config e ''custom-theme''))]
      in if truthy (config e ''enforce-ssl'')
         then (if py_all [fst (get_cert e), snd (get_cert e)]
               then ([], AList.update ''enforce_ssl'' (PVal (PBool True)) ctxt)
               else ([(''Enforce ssl redirect requested but ssl not configured - ''
                         @ ''skipping redirect'', Some WARNING)], ctxt))
         else ([], ctxt))"

section \<open>ApacheSSLContext\<close>

text \<open>
  The effects on the machine, in the order the hook performs them: installing the CA
  certificate, opening a file for writing (which creates or truncates it), writing
  data to it, and changing its mode.
\<close>

datatype fs_event =
  InstallCaCert string
| OpenWrite string
| WriteData string string
| Chmod string nat

definition SSL_CERT_FILE :: string where
  "SSL_CERT_FILE = ''/etc/apache2/ssl/horizon/cert_dashboard''"

definition SSL_KEY_FILE :: string where
  "SSL_KEY_FILE = ''/etc/apache2/ssl/horizon/key_dashboard''"

definition dashboard_cert :: string where
  "dashboard_cert = ''/etc/ssl/certs/dashboard.cert''"

definition dashboard_key :: string where
  "dashboard_key = ''/etc/ssl/private/dashboard.key''"

text \<open>The octal literal \<open>0600\<close>: read and write for the owner, nothing for anyone else.\<close>

definition mode_0600 :: nat where
  "mode_0600 = 6 * 8 * 8"

definition use_local_ca :: "env \<Rightarrow> bool" where
  "use_local_ca e =
     fold (\<lambda>rid u. if related_units e rid \<noteq> [] then False else u)
       (relation_ids e ''certificates'') True"

text \<open>\<open>b64decode\<close> of a value that is not a string raises \<open>TypeError\<close>.\<close>

definition py_b64decode :: "env \<Rightarrow> pyval \<Rightarrow> exn + string" where
  "py_b64decode e v = (case v of PStr s \<Rightarrow> b64decode e s | _ \<Rightarrow> Inl TypeError)"

definition ssl_unconfigured :: pydict where
  "ssl_unconfigured = [(''ssl_configured'', PVal (PBool False))]"

definition ssl_configured_at :: "string \<Rightarrow> string \<Rightarrow> pydict" where
  "ssl_configured_at cert key =
     [(''ssl_configured'', PVal (PBool True)),
      (''ssl_cert'', PVal (PStr cert)),
      (''ssl_key'', PVal (PStr key))]"

definition apache_ssl_call :: "env \<Rightarrow> fs_event list \<times> (exn + pydict)" where
  "apache_ssl_call e =
     (let ctxt = ssl_unconfigured
      in if use_local_ca e
         then (let ca_cert = get_ca_cert e
               in if \<not> truthy ca_cert then ([], Inr ctxt)
                  else (case py_b64decode e ca_cert of
                          Inl x \<Rightarrow> ([], Inl x)
                        | Inr ca \<Rightarrow>
                  (let ev0 = [InstallCaCert ca];
                       ssl_cert = fst (get_cert e);
                       ssl_key = snd (get_cert e)
                   in if py_all [ssl_cert, ssl_key]
                      then (let ev1 = ev0 @ [OpenWrite dashboard_cert]
                            in case py_b64decode e ssl_cert of
                                 Inl x \<Rightarrow> (ev1, Inl x)
                               | Inr cert \<Rightarrow>
                            (let ev2 = ev1 @ [WriteData dashboard_cert cert,
                                              OpenWrite dashboard_key]
                             in case py_b64decode e ssl_key of
                                  Inl x \<Rightarrow> (ev2, Inl x)
                                | Inr key \<Rightarrow>
                                    (ev2 @ [WriteData dashboard_key key,
                                            Chmod dashboard_key mode_0600],
                                     Inr (ssl_configured_at dashboard_cert dashboard_key))))
                      else (ev0, Inr ctxt))))
         else (if path_exists e SSL_CERT_FILE \<and> path_exists e SSL_KEY_FILE
               then ([], Inr (ssl_configured_at SSL_CERT_FILE SSL_KEY_FILE))
               else ([], Inr ctxt)))"

section \<open>LocalSettingsContext\<close>

text \<open>
  Python 2's \<open><\<close> on scalars, which \<open>sorted\<close> applies to the keys: \<open>None\<close> is below
  everything else, booleans and integers compare as numbers and are below every
  string, strings compare byte by byte.
\<close>

fun num_val :: "pyval \<Rightarrow> int" where
  "num_val (PBool b) = (if b then 1 else 0)"
| "num_val (PInt i) = i"
| "num_val _ = 0"

fun py_lt :: "pyval \<Rightarrow> pyval \<Rightarrow> bool" where
  "py_lt PNone b = (b \<noteq> PNone)"
| "py_lt (PStr s) b = (case b of PStr t \<Rightarrow> s < t | _ \<Rightarrow> False)"
| "py_lt a PNone = False"
| "py_lt a (PStr t) = True"
| "py_lt a b = (num_val a < num_val b)"

text \<open>
  \<open>sorted(xs, key=f)\<close> is stable: of two elements, the later one moves ahead of the
  earlier one only when its key is strictly smaller.
\<close>

fun insort_by :: "('a \<Rightarrow> pyval) \<Rightarrow> 'a \<Rightarrow> 'a list \<Rightarrow> 'a list" where
  "insort_by f x [] = [x]"
| "insort_by f x (y # ys) =
     (if py_lt (f y) (f x) then y # insort_by f x ys else x # y # ys)"

definition py_sorted :: "('a \<Rightarrow> pyval) \<Rightarrow> 'a list \<Rightarrow> 'a list" where
  "py_sorted f xs = foldr (insort_by f) xs []"

fun collect_settings ::
  "env \<Rightarrow> string list \<Rightarrow> (string \<times> rdata) list \<Rightarrow> (string \<times> rdata) list" where
  "collect_settings e [] relations = relations"
| "collect_settings e (rid # rids) relations =
     (case related_units e rid of
        [] \<Rightarrow> collect_settings e rids relations
      | unit # _ \<Rightarrow>
          (let rd = relation_get e rid unit
           in if set [''local-settings'', ''priority''] \<subseteq> set (map fst rd)
              then collect_settings e rids (relations @ [(unit, rd)])
              else collect_settings e rids relations))"

definition priority_of :: "string \<times> rdata \<Rightarrow> pyval" where
  "priority_of r = rget (snd r) ''priority''"

definition render_fragment :: "string \<times> rdata \<Rightarrow> string" where
  "render_fragment r =
     ''# '' @ fst r @ [CHR 0x0A] @ py_str (rget (snd r) ''local-settings'')"

definition settings_ctxt :: "(string \<times> rdata) list \<Rightarrow> pydict" where
  "settings_ctxt relations =
     [(''settings'',
       PList (map (\<lambda>r. PVal (PStr (render_fragment r))) (py_sorted priority_of relations)))]"

text \<open>The list \<open>relations\<close> as the loop leaves it.\<close>

definition plugin_relations :: "env \<Rightarrow> (string \<times> rdata) list" where
  "plugin_relations e = collect_settings e (relation_ids e ''dashboard-plugin'') []"

definition local_settings_call :: "env \<Rightarrow> pydict" where
  "local_settings_call e = settings_ctxt (plugin_relations e)"

section \<open>WebSSOFIDServiceProviderContext\<close>

definition websso_keys :: "string list" where
  "websso_keys = [''protocol-name'', ''idp-name'', ''user-facing-name'']"

text \<open>\<open>json.loads\<close> of a value that is not a string raises \<open>TypeError\<close>.\<close>

definition py_json_loads :: "env \<Rightarrow> pyval \<Rightarrow> exn + pyobj" where
  "py_json_loads e v = (case v of PStr s \<Rightarrow> json_loads e s | _ \<Rightarrow> Inl TypeError)"

text \<open>The dictionary comprehension over \<open>websso_keys\<close>.\<close>

fun decode_keys :: "env \<Rightarrow> rdata \<Rightarrow> string list \<Rightarrow> exn + pydict" where
  "decode_keys e rd [] = Inr []"
| "decode_keys e rd (k # ks) =
     (case py_json_loads e (rget rd k) of
        Inl x \<Rightarrow> Inl x
      | Inr v \<Rightarrow>
          (case decode_keys e rd ks of
             Inl x \<Rightarrow> Inl x
           | Inr d \<Rightarrow> Inr ((k, v) # d)))"

fun websso_collect :: "env \<Rightarrow> string list \<Rightarrow> pyobj list \<Rightarrow> exn + pyobj list" where
  "websso_collect e [] relations = Inr relations"
| "websso_collect e (rid # rids) relations =
     (case related_units e rid of
        [] \<Rightarrow> websso_collect e rids relations
      | unit # _ \<Rightarrow>
          (let rd = relation_get e rid unit
           in if set websso_keys \<subseteq> set (map fst rd)
              then (case decode_keys e rd websso_keys of
                      Inl x \<Rightarrow> Inl x
                    | Inr d \<Rightarrow> websso_collect e rids (relations @ [PDict d]))
              else websso_collect e rids relations))"

definition websso_call :: "env \<Rightarrow> exn + pydict" where
  "websso_call e =
     (case websso_collect e (relation_ids e ''websso-fid-service-provider'') [] of
        Inl x \<Rightarrow> Inl x
      | Inr relations \<Rightarrow>
          Inr (if relations \<noteq> [] then [(''websso_data'', PList relations)] else []))"

section \<open>Views of the identity-service relation used in the statements\<close>

text \<open>All records of the relation, in the order the two nested loops visit them.\<close>

definition records :: "env \<Rightarrow> rdata list" where
  "records e =
     concat (map (\<lambda>rid. map (relation_get e rid) (related_units e rid))
               (relation_ids e ''identity-service''))"

definition complete :: "env \<Rightarrow> rdata \<Rightarrow> bool" where
  "complete e rd = context_complete (local_ctxt e rd)"

text \<open>The loop body run over a flat list of records.\<close>

fun identity_records :: "env \<Rightarrow> rdata list \<Rightarrow> id_state \<Rightarrow> exn + id_state" where
  "identity_records e [] st = Inr st"
| "identity_records e (rd # rds) st =
     (case identity_unit e st rd of
        Inl x \<Rightarrow> Inl x
      | Inr st' \<Rightarrow> identity_records e rds st')"

text \<open>
  The base context: the returned mapping without the keys that are added after the loop.
\<close>

definition base_context :: "pydict \<Rightarrow> pydict" where
  "base_context ctxt =
     filter (\<lambda>kv. fst kv \<notin> set [''regions'', ''primary_endpoint'', ''secondary_endpoint''])
       ctxt"

section \<open>Sample environments\<close>

text \<open>
  A deployment with no configuration set, no relations and no SSL material; every
  option reads as \<open>None\<close>, which \<open>bool_from_string\<close> does not accept, and nothing
  decodes.
\<close>

definition conf_of :: "(string \<times> pyval) list \<Rightarrow> string \<Rightarrow> pyval" where
  "conf_of kvs k = (case map_of kvs k of None \<Rightarrow> PNone | Some v \<Rightarrow> v)"

definition bare_env :: env where
  "bare_env =
     \<lparr>config = conf_of [],
      relation_ids = (\<lambda>_. []),
      related_units = (\<lambda>_. []),
      relation_get = (\<lambda>_ _. []),
      format_ipv6_addr = (\<lambda>_. PNone),
      bool_from_string = (\<lambda>_. Inl ValueError),
      pwgen = ''Xb4Qz7Lc'',
      get_cert = (PNone, PNone),
      get_ca_cert = PNone,
      b64decode = (\<lambda>_. Inl TypeError),
      json_loads = (\<lambda>_. Inl ValueError),
      path_exists = (\<lambda>_. False)\<rparr>"

text \<open>
  Two identity-service relations with three units. Only \<open>keystone/1\<close> publishes both a
  host and a port; it also names two regions.
\<close>

definition keystone_ok :: rdata where
  "keystone_ok =
     [(''service_host'', PStr ''10.0.0.6''),
      (''service_port'', PStr ''5000''),
      (''region'', PStr ''RegionOne RegionTwo'')]"

definition keystone_env :: env where
  "keystone_env =
     bare_env
       \<lparr>relation_ids :=
          (\<lambda>r. if r = ''identity-service''
               then [''identity-service:0'', ''identity-service:1''] else []),
        related_units :=
          (\<lambda>rid. if rid = ''identity-service:0'' then [''keystone/0'', ''keystone/1'']
                 else if rid = ''identity-service:1'' then [''keystone-b/0'']
                 else []),
        relation_get :=
          (\<lambda>rid unit.
             if unit = ''keystone/0'' then [(''private-address'', PStr ''10.0.0.5'')]
             else if unit = ''keystone/1'' then keystone_ok
             else if unit = ''keystone-b/0'' then [(''service_host'', PStr ''10.0.0.7'')]
             else [])\<rparr>"

definition keystone_ctxt :: pydict where
  "keystone_ctxt =
     [(''service_port'', PVal (PStr ''5000'')),
      (''service_host'', PVal (PStr ''10.0.0.6'')),
      (''service_protocol'', PVal (PStr ''http'')),
      (''api_version'', PVal (PStr ''2'')),
      (''regions'',
       PList
         [PDict [(''endpoint'', PVal (PStr ''http://10.0.0.6:5000/v2.0'')),
                 (''title'', PVal (PStr ''RegionOne''))],
          PDict [(''endpoint'', PVal (PStr ''http://10.0.0.6:5000/v2.0'')),
                 (''title'', PVal (PStr ''RegionTwo''))]])]"

text \<open>A value that the completeness check rejects: \<open>None\<close> or the empty string.\<close>

definition missing :: "pyval \<Rightarrow> bool" where
  "missing v = (v = PNone \<or> v = PStr [])"

text \<open>
  A keystone that speaks API version 3 and publishes host and port but no admin domain
  id, in a deployment where no default domain is configured.
\<close>

definition v3_record :: rdata where
  "v3_record =
     [(''service_host'', PStr ''10.0.0.6''),
      (''service_port'', PStr ''5000''),
      (''api_version'', PStr ''3'')]"

definition v3_env :: env where
  "v3_env =
     bare_env
       \<lparr>relation_ids := (\<lambda>r. if r = ''identity-service'' then [''identity-service:0''] else []),
        related_units := (\<lambda>rid. if rid = ''identity-service:0'' then [''keystone/0''] else []),
        relation_get := (\<lambda>rid unit. if unit = ''keystone/0'' then v3_record else [])\<rparr>"

text \<open>
  The (endpoint, region) pairs one record stands for: its synthetic endpoint paired with
  each whitespace-separated name of its region value.
\<close>

definition region_pairs :: "env \<Rightarrow> rdata \<Rightarrow> (string \<times> string) list" where
  "region_pairs e rd =
     (case rget rd ''region'' of
        PStr s \<Rightarrow> map (Pair (endpoint_of (local_ctxt e rd))) (split_ws s)
      | _ \<Rightarrow> [])"

text \<open>The pairs of every record that carries a region value.\<close>

definition all_region_pairs :: "env \<Rightarrow> (string \<times> string) list" where
  "all_region_pairs e = concat (map (region_pairs e) (records e))"

text \<open>The pairs of the complete records only.\<close>

definition complete_region_pairs :: "env \<Rightarrow> (string \<times> string) list" where
  "complete_region_pairs e = concat (map (region_pairs e) (filter (complete e) (records e)))"

text \<open>A single keystone unit that names two regions and a port but no host.\<close>

definition hostless_record :: rdata where
  "hostless_record = [(''service_port'', PStr ''5000''), (''region'', PStr ''east west'')]"

definition hostless_env :: env where
  "hostless_env =
     bare_env
       \<lparr>relation_ids := (\<lambda>r. if r = ''identity-service'' then [''identity-service:0''] else []),
        related_units := (\<lambda>rid. if rid = ''identity-service:0'' then [''keystone/0''] else []),
        relation_get := (\<lambda>rid unit. if unit = ''keystone/0'' then hostless_record else [])\<rparr>"


text \<open>
  Four dashboard-plugin relations: a plugin with priority 99, a relation without units,
  a plugin with priority 60, and a unit that publishes settings without a priority.
\<close>

definition manila_plugin :: rdata where
  "manila_plugin = [(''priority'', PInt 99), (''local-settings'', PStr ''FOO = True'')]"

definition designate_plugin :: rdata where
  "designate_plugin = [(''local-settings'', PStr ''BAR = False''), (''priority'', PInt 60)]"

definition plugin_env :: env where
  "plugin_env =
     bare_env
       \<lparr>relation_ids :=
          (\<lambda>r. if r = ''dashboard-plugin''
               then [''dashboard-plugin:0'', ''dashboard-plugin:1'',
                     ''dashboard-plugin:2'', ''dashboard-plugin:3'']
               else []),
        related_units :=
          (\<lambda>rid. if rid = ''dashboard-plugin:0'' then [''manila-dashboard/0'']
                 else if rid = ''dashboard-plugin:2''
                 then [''designate-dashboard/0'', ''designate-dashboard/1'']
                 else if rid = ''dashboard-plugin:3'' then [''trove-dashboard/0'']
                 else []),
        relation_get :=
          (\<lambda>rid unit.
             if unit = ''manila-dashboard/0'' then manila_plugin
             else if unit = ''designate-dashboard/0'' then designate_plugin
             else if unit = ''trove-dashboard/0'' then [(''local-settings'', PStr ''BAZ = 1'')]
             else [])\<rparr>"


text \<open>
  A relation id carries a settings fragment when its first related unit publishes both
  required keys.
\<close>

definition carries_settings :: "env \<Rightarrow> string \<Rightarrow> bool" where
  "carries_settings e rid =
     (case related_units e rid of
        [] \<Rightarrow> False
      | unit # _ \<Rightarrow>
          set [''local-settings'', ''priority''] \<subseteq> set (map fst (relation_get e rid unit)))"

text \<open>Only the relation without units and the one whose unit publishes no priority.\<close>

definition plugin_env_unset :: env where
  "plugin_env_unset =
     plugin_env
       \<lparr>relation_ids :=
          (\<lambda>r. if r = ''dashboard-plugin''
               then [''dashboard-plugin:1'', ''dashboard-plugin:3'']
               else [])\<rparr>"

text \<open>An event that creates, truncates or fills the certificate file or the key file.\<close>

fun touches_ssl_file :: "fs_event \<Rightarrow> bool" where
  "touches_ssl_file (OpenWrite p) = (p = dashboard_cert \<or> p = dashboard_key)"
| "touches_ssl_file (WriteData p d) = (p = dashboard_cert \<or> p = dashboard_key)"
| "touches_ssl_file _ = False"

text \<open>
  The operator asks for SSL enforcement; no certificate or key is configured, and the
  certificates relation is established but has no units yet.
\<close>

definition enforce_env :: env where
  "enforce_env =
     bare_env
       \<lparr>config := conf_of [(''enforce-ssl'', PBool True)],
        relation_ids := (\<lambda>r. if r = ''certificates'' then [''certificates:0''] else [])\<rparr>"

text \<open>
  The same with a CA certificate, a certificate and a key, all base64-encoded;
  \<open>b64decode\<close> is given on these three inputs.
\<close>

definition enforce_ssl_env :: env where
  "enforce_ssl_env =
     enforce_env
       \<lparr>get_cert := (PStr ''Y2VydA=='', PStr ''a2V5''),
        get_ca_cert := PStr ''Y2E='',
        b64decode :=
          (\<lambda>s. case map_of [(''Y2E='', ''ca''), (''Y2VydA=='', ''cert''), (''a2V5'', ''key'')] s of
                 Some d \<Rightarrow> Inr d
               | None \<Rightarrow> Inl TypeError)\<rparr>"

section \<open>Views of the federation relation used in the statements\<close>

text \<open>The settings of the first related unit of each relation id that has units.\<close>

definition first_units :: "env \<Rightarrow> string list \<Rightarrow> rdata list" where
  "first_units e rids =
     concat (map (\<lambda>rid. case related_units e rid of
                          [] \<Rightarrow> []
                        | unit # _ \<Rightarrow> [relation_get e rid unit]) rids)"

definition has_websso_keys :: "rdata \<Rightarrow> bool" where
  "has_websso_keys rd = (set websso_keys \<subseteq> set (map fst rd))"

definition decodable :: "env \<Rightarrow> rdata \<Rightarrow> bool" where
  "decodable e rd = list_all (\<lambda>k. \<not> isl (py_json_loads e (rget rd k))) websso_keys"

text \<open>The first units that supply all three keys, in relation-id order.\<close>

definition suppliers :: "env \<Rightarrow> rdata list" where
  "suppliers e =
     filter has_websso_keys (first_units e (relation_ids e ''websso-fid-service-provider''))"

text \<open>
  The provider descriptor of a unit; the fallback value is never reached for a unit
  whose three values decode.
\<close>

definition decoded :: "env \<Rightarrow> pyval \<Rightarrow> pyobj" where
  "decoded e v = (case py_json_loads e v of Inr x \<Rightarrow> x | Inl _ \<Rightarrow> PVal PNone)"

definition descriptor :: "env \<Rightarrow> rdata \<Rightarrow> pyobj" where
  "descriptor e rd = PDict (map (\<lambda>k. (k, decoded e (rget rd k))) websso_keys)"

text \<open>
  One federation relation with two units. The first unit has not yet published its
  identity-provider name; the second publishes all three keys as JSON strings.
  \<open>json_loads\<close> is given on the values that occur.
\<close>

definition quoted :: "string \<Rightarrow> string" where
  "quoted s = CHR 0x22 # s @ [CHR 0x22]"

definition idp_partial :: rdata where
  "idp_partial =
     [(''protocol-name'', PStr (quoted ''saml2'')),
      (''user-facing-name'', PStr (quoted ''Test IdP''))]"

definition idp_full :: rdata where
  "idp_full =
     [(''protocol-name'', PStr (quoted ''saml2'')),
      (''idp-name'', PStr (quoted ''test-idp'')),
      (''user-facing-name'', PStr (quoted ''Test IdP''))]"

text \<open>A unit whose protocol name is a bare word, which is not JSON.\<close>

definition idp_unquoted :: rdata where
  "idp_unquoted =
     [(''protocol-name'', PStr ''saml2''),
      (''idp-name'', PStr (quoted ''test-idp'')),
      (''user-facing-name'', PStr (quoted ''Test IdP''))]"

definition websso_env :: env where
  "websso_env =
     bare_env
       \<lparr>relation_ids :=
          (\<lambda>r. if r = ''websso-fid-service-provider''
               then [''websso-fid-service-provider:0''] else []),
        related_units :=
          (\<lambda>rid. if rid = ''websso-fid-service-provider:0'' then [''idp/0'', ''idp/1'']
                 else if rid = ''websso-fid-service-provider:1'' then [''idp-b/0'']
                 else if rid = ''websso-fid-service-provider:2'' then [''idp-c/0'']
                 else []),
        relation_get :=
          (\<lambda>rid unit.
             if unit = ''idp/0'' then idp_partial
             else if unit = ''idp/1'' then idp_full
             else if unit = ''idp-b/0'' then idp_full
             else if unit = ''idp-c/0'' then idp_unquoted
             else []),
        json_loads :=
          (\<lambda>s. case map_of [(quoted ''saml2'', PVal (PStr ''saml2'')),
                             (quoted ''test-idp'', PVal (PStr ''test-idp'')),
                             (quoted ''Test IdP'', PVal (PStr ''Test IdP''))] s of
                 Some v \<Rightarrow> Inr v
               | None \<Rightarrow> Inl ValueError)\<rparr>"

text \<open>The same units seen through relation ids 0 and 1, and through 0 and 2.\<close>

definition websso_env_two :: env where
  "websso_env_two =
     websso_env
       \<lparr>relation_ids :=
          (\<lambda>r. if r = ''websso-fid-service-provider''
               then [''websso-fid-service-provider:0'', ''websso-fid-service-provider:1'']
               else [])\<rparr>"

definition websso_env_bad :: env where
  "websso_env_bad =
     websso_env
       \<lparr>relation_ids :=
          (\<lambda>r. if r = ''websso-fid-service-provider''
               then [''websso-fid-service-provider:0'', ''websso-fid-service-provider:2'']
               else [])\<rparr>"

section \<open>Views of the dashboard settings used in the statements\<close>

text \<open>The keys of the dictionary literal, and the options that are passed through as read.\<close>

definition horizon_keys :: "string list" where
  "horizon_keys =
     [''compress_offline'', ''debug'', ''customization_module'', ''default_role'',
      ''webroot'', ''ubuntu_theme'', ''default_theme'', ''custom_theme'', ''secret'',
      ''support_profile'', ''neutron_network_dvr'', ''neutron_network_l3ha'',
      ''neutron_network_lb'', ''neutron_network_firewall'', ''neutron_network_vpn'',
      ''cinder_backup'', ''allow_password_autocompletion'', ''password_retrieve'',
      ''default_domain'', ''multi_domain'', ''default_create_volume'', ''image_formats'']"

definition passed_through :: "(string \<times> string) list" where
  "passed_through =
     [(''customization-module'', ''customization_module''),
      (''default-role'', ''default_role''),
      (''default-theme'', ''default_theme''),
      (''custom-theme'', ''custom_theme''),
      (''neutron-network-dvr'', ''neutron_network_dvr''),
      (''neutron-network-l3ha'', ''neutron_network_l3ha''),
      (''neutron-network-lb'', ''neutron_network_lb''),
      (''neutron-network-firewall'', ''neutron_network_firewall''),
      (''neutron-network-vpn'', ''neutron_network_vpn''),
      (''cinder-backup'', ''cinder_backup''),
      (''allow-password-autocompletion'', ''allow_password_autocompletion''),
      (''password-retrieve'', ''password_retrieve''),
      (''default-domain'', ''default_domain''),
      (''default-create-volume'', ''default_create_volume''),
      (''image-formats'', ''image_formats'')]"

text \<open>
  A deployment in which only the three boolean options are set; \<open>bool_from_string\<close> is
  given on the two values that occur.
\<close>

definition horizon_env :: env where
  "horizon_env =
     bare_env
       \<lparr>config := conf_of [(''offline-compression'', PStr ''yes''),
                           (''debug'', PStr ''no''),
                           (''ubuntu-theme'', PStr ''yes'')],
        bool_from_string :=
          (\<lambda>v. if v = PStr ''yes'' then Inr True
                else if v = PStr ''no'' then Inr False
                else Inl ValueError)\<rparr>"






section \<open>Endpoint-type normalisation\<close>

text \<open>
  C2. For every endpoint-type string whose upper-casing is none of PUBLICURL,
  INTERNALURL, ADMINURL, \<open>normalize\<close> logs the message at level ERROR and raises an
  exception carrying it, so no default is substituted; for every string whose
  upper-casing is one of the three it returns publicURL, internalURL or adminURL
  respectively, and logs nothing.
\<close>

theorem normalize_total_map:
  "(upper e \<notin> {''PUBLICURL'', ''INTERNALURL'', ''ADMINURL''} \<longrightarrow>
      (\<exists>msg. normalize e = ([(msg, Some ERROR)], Inl (Exception msg))))
   \<and> (upper e = ''PUBLICURL'' \<longrightarrow> normalize e = ([], Inr ''publicURL''))
   \<and> (upper e = ''INTERNALURL'' \<longrightarrow> normalize e = ([], Inr ''internalURL''))
   \<and> (upper e = ''ADMINURL'' \<longrightarrow> normalize e = ([], Inr ''adminURL''))"
  by (simp add: normalize_def VALID_ENDPOINT_TYPES_def Let_def)

theorem normalize_total_map_witness:
  "upper ''internalurl'' = ''INTERNALURL''
   \<and> normalize ''internalurl'' = ([], Inr ''internalURL'')
   \<and> upper ''private'' \<notin> {''PUBLICURL'', ''INTERNALURL'', ''ADMINURL''}
   \<and> (\<exists>msg. normalize ''private'' = ([(msg, Some ERROR)], Inl (Exception msg)))"
proof -
  have u1: "upper ''internalurl'' = ''INTERNALURL''"
    by (simp add: upper_def ascii_upper_def)
  have u2: "upper ''private'' \<notin> {''PUBLICURL'', ''INTERNALURL'', ''ADMINURL''}"
    by (simp add: upper_def ascii_upper_def)
  from normalize_total_map [of "''internalurl''"] u1
  have n1: "normalize ''internalurl'' = ([], Inr ''internalURL'')" by blast
  from normalize_total_map [of "''private''"] u2
  have n2: "\<exists>msg. normalize ''private'' = ([(msg, Some ERROR)], Inl (Exception msg))" by blast
  from u1 u2 n1 n2 show ?thesis by blast
qed

section \<open>The identity-service loop\<close>

lemma identity_records_append:
  "identity_records e (xs @ ys) st =
     (case identity_records e xs st of Inl x \<Rightarrow> Inl x | Inr st' \<Rightarrow> identity_records e ys st')"
  by (induction xs arbitrary: st) (auto split: sum.splits)

lemma identity_units_records:
  "identity_units e rid units st = identity_records e (map (relation_get e rid) units) st"
  by (induction units arbitrary: st) (auto split: sum.splits)

lemma identity_rids_records:
  "identity_rids e rids st =
     identity_records e
       (concat (map (\<lambda>rid. map (relation_get e rid) (related_units e rid)) rids)) st"
  by (induction rids arbitrary: st)
     (auto simp: identity_units_records identity_records_append split: sum.splits)

lemma local_ctxt_nonempty: "as_ctxt (local_ctxt e rd) \<noteq> []"
  by (simp add: as_ctxt_def local_ctxt_def Let_def)

lemma identity_records_ctxt:
  "identity_records e rds st = Inr st' \<Longrightarrow>
   fst st' = (if fst st \<noteq> [] then fst st
              else (case find (complete e) rds of
                      None \<Rightarrow> []
                    | Some r \<Rightarrow> as_ctxt (local_ctxt e r)))"
proof (induction rds arbitrary: st)
  case Nil
  then show ?case by auto
next
  case (Cons rd rds)
  then show ?case
    by (auto simp: identity_unit_def Let_def complete_def local_ctxt_nonempty
             split: sum.splits if_splits)
qed

lemma base_context_local: "base_context (as_ctxt (local_ctxt e rd)) = as_ctxt (local_ctxt e rd)"
  by (simp add: base_context_def as_ctxt_def local_ctxt_def Let_def)

lemma base_context_update:
  "k \<in> {''regions'', ''primary_endpoint'', ''secondary_endpoint''} \<Longrightarrow>
   base_context (AList.update k v c) = base_context c"
  by (induction c) (auto simp: base_context_def)

lemma endpoint_types_base:
  "endpoint_types c v = (lg, Inr c') \<Longrightarrow> base_context c' = base_context c"
  by (auto simp: endpoint_types_def Let_def base_context_update
           split: if_splits pyval.splits prod.splits sum.splits list.splits)

lemma find_first_split:
  "xs = pre @ r # post \<Longrightarrow> P r \<Longrightarrow> \<forall>p\<in>set pre. \<not> P p \<Longrightarrow> find P xs = Some r"
  by (induction pre arbitrary: xs) auto

lemma find_only:
  "filter P xs = [r] \<Longrightarrow> find P xs = Some r"
  by (induction xs) (auto split: if_splits)

text \<open>What the call returns is split into the state the loop leaves and the later keys.\<close>

lemma identity_call_loop:
  assumes "identity_call e = (lg, Inr ctxt)"
  obtains c regs lg' where
    "identity_records e (records e) ([], []) = Inr (c, regs)"
    "endpoint_types
       (if length regs > 1
        then AList.update ''regions'' (PList (map region_entry (sort regs))) c
        else c) (config e ''endpoint-type'') = (lg', Inr ctxt)"
proof -
  from assms obtain c regs lg' where
    loop: "identity_rids e (relation_ids e ''identity-service'') ([], []) = Inr (c, regs)"
    and ep: "endpoint_types
               (if length regs > 1
                then AList.update ''regions'' (PList (map region_entry (sort regs))) c
                else c) (config e ''endpoint-type'') = (lg', Inr ctxt)"
    by (auto simp: identity_call_def Let_def split: sum.splits prod.splits)
  from loop have "identity_records e (records e) ([], []) = Inr (c, regs)"
    by (simp add: identity_rids_records records_def)
  with ep that show thesis by blast
qed

lemma identity_call_base:
  assumes "identity_call e = (lg, Inr ctxt)"
  shows "base_context ctxt =
           (case find (complete e) (records e) of
              None \<Rightarrow> []
            | Some r \<Rightarrow> as_ctxt (local_ctxt e r))"
proof -
  from assms obtain c regs lg' where
    loop: "identity_records e (records e) ([], []) = Inr (c, regs)"
    and ep: "endpoint_types
               (if length regs > 1
                then AList.update ''regions'' (PList (map region_entry (sort regs))) c
                else c) (config e ''endpoint-type'') = (lg', Inr ctxt)"
    by (rule identity_call_loop)
  from identity_records_ctxt [OF loop]
  have c: "c = (case find (complete e) (records e) of
                  None \<Rightarrow> [] | Some r \<Rightarrow> as_ctxt (local_ctxt e r))"
    by simp
  have "base_context c = c"
    by (simp add: c base_context_local split: option.splits) (simp add: base_context_def)
  moreover from endpoint_types_base [OF ep]
  have "base_context ctxt = base_context c"
    by (simp add: base_context_update split: if_splits)
  ultimately show ?thesis using c by simp
qed

subsection \<open>The sample deployment\<close>

lemma keystone_records:
  "records keystone_env =
     [(''private-address'', PStr ''10.0.0.5'')] # keystone_ok
       # [[(''service_host'', PStr ''10.0.0.7'')]]"
  by (simp add: records_def keystone_env_def bare_env_def)

lemma keystone_call:
  "identity_call keystone_env =
     ([(''Generating template context for identity-service'', None)], Inr keystone_ctxt)"
  by (simp add: identity_call_def keystone_env_def bare_env_def identity_unit_def Let_def
        local_ctxt_def context_complete_def rget_def keystone_ok_def py_or_def add_regions_def
        endpoint_of_def split_ws_def is_space_def as_ctxt_def endpoint_types_def conf_of_def
        region_entry_def keystone_ctxt_def)

lemma keystone_complete:
  "complete keystone_env keystone_ok"
  "\<not> complete keystone_env [(''private-address'', PStr ''10.0.0.5'')]"
  "\<not> complete keystone_env [(''service_host'', PStr ''10.0.0.7'')]"
  by (simp_all add: complete_def keystone_env_def bare_env_def Let_def
        local_ctxt_def context_complete_def rget_def keystone_ok_def py_or_def conf_of_def)

subsection \<open>First complete record wins\<close>

text \<open>
  C1. Whenever the identity-service context is returned, its base context (the
  mapping without the keys added after the loop) is the extracted fields of the first
  record, in iteration order over all relation ids and units, that passes the
  completeness check; no later record changes it. In particular, when exactly one
  record is complete, the base context is that record's extracted fields wherever the
  incomplete records stand in the iteration order.
\<close>

theorem identity_first_complete_wins:
  assumes "identity_call e = (lg, Inr ctxt)"
  shows "(\<forall>pre r post.
            records e = pre @ r # post \<and> complete e r \<and> (\<forall>p\<in>set pre. \<not> complete e p) \<longrightarrow>
            base_context ctxt = as_ctxt (local_ctxt e r))
         \<and> (\<forall>r. filter (complete e) (records e) = [r] \<longrightarrow>
                base_context ctxt = as_ctxt (local_ctxt e r))"
proof (intro conjI allI impI)
  fix pre r post
  assume "records e = pre @ r # post \<and> complete e r \<and> (\<forall>p\<in>set pre. \<not> complete e p)"
  then have "find (complete e) (records e) = Some r"
    using find_first_split [of "records e" pre r post "complete e"] by blast
  with identity_call_base [OF assms] show "base_context ctxt = as_ctxt (local_ctxt e r)"
    by simp
next
  fix r
  assume "filter (complete e) (records e) = [r]"
  then have "find (complete e) (records e) = Some r" by (rule find_only)
  with identity_call_base [OF assms] show "base_context ctxt = as_ctxt (local_ctxt e r)"
    by simp
qed

theorem identity_first_complete_wins_witness:
  "identity_call keystone_env =
     ([(''Generating template context for identity-service'', None)], Inr keystone_ctxt)
   \<and> records keystone_env =
       [[(''private-address'', PStr ''10.0.0.5'')]] @ keystone_ok
         # [[(''service_host'', PStr ''10.0.0.7'')]]
   \<and> complete keystone_env keystone_ok
   \<and> \<not> complete keystone_env [(''private-address'', PStr ''10.0.0.5'')]
   \<and> filter (complete keystone_env) (records keystone_env) = [keystone_ok]
   \<and> base_context keystone_ctxt = as_ctxt (local_ctxt keystone_env keystone_ok)"
proof -
  have recs: "records keystone_env =
       [[(''private-address'', PStr ''10.0.0.5'')]] @ keystone_ok
         # [[(''service_host'', PStr ''10.0.0.7'')]]"
    by (simp add: keystone_records)
  have only: "filter (complete keystone_env) (records keystone_env) = [keystone_ok]"
    by (simp add: keystone_records keystone_complete)
  have pre: "\<forall>p\<in>set [[(''private-address'', PStr ''10.0.0.5'')]]. \<not> complete keystone_env p"
    by (simp add: keystone_complete)
  from identity_first_complete_wins [OF keystone_call] recs keystone_complete(1) pre
  have "base_context keystone_ctxt = as_ctxt (local_ctxt keystone_env keystone_ok)"
    by blast
  moreover from identity_first_complete_wins [OF keystone_call] only
  have "base_context keystone_ctxt = as_ctxt (local_ctxt keystone_env keystone_ok)"
    by blast
  ultimately show ?thesis
    using keystone_call recs keystone_complete only by blast
qed

subsection \<open>Which records are discarded\<close>

text \<open>
  C3, as stated, fails: a record that carries both \<open>service_host\<close> and
  \<open>service_port\<close> is still discarded when it announces API version 3 without an admin
  domain id and no default domain is configured. The call then returns the empty context.
\<close>

theorem v3_record_discarded_counterexample:
  "records v3_env = [v3_record]
   \<and> map_of v3_record ''service_host'' = Some (PStr ''10.0.0.6'')
   \<and> map_of v3_record ''service_port'' = Some (PStr ''5000'')
   \<and> \<not> complete v3_env v3_record
   \<and> identity_call v3_env =
       ([(''Generating template context for identity-service'', None)], Inr [])"
  by (simp add: records_def v3_env_def bare_env_def v3_record_def complete_def local_ctxt_def
        Let_def rget_def py_or_def conf_of_def context_complete_def identity_call_def
        identity_unit_def endpoint_types_def)

lemma truthy_not_missing: "truthy v \<Longrightarrow> \<not> missing v"
  by (cases v) (auto simp: missing_def)

lemma local_ctxt_protocol:
  "map_of (local_ctxt e rd) ''service_protocol'' =
     Some (py_or (rget rd ''service_protocol'') (PStr ''http''))"
  by (simp add: local_ctxt_def Let_def rget_def)

lemma local_ctxt_api_version:
  "map_of (local_ctxt e rd) ''api_version'' =
     Some (case map_of rd ''api_version'' of None \<Rightarrow> PStr ''2'' | Some v \<Rightarrow> v)"
  by (simp add: local_ctxt_def Let_def rget_def)

lemma protocol_not_missing:
  "\<not> missing (py_or (rget rd ''service_protocol'') (PStr ''http''))"
  using truthy_not_missing [of "rget rd ''service_protocol''"]
  by (auto simp: py_or_def missing_def)

lemma complete_iff:
  "complete e rd \<longleftrightarrow>
     \<not> missing (rget rd ''service_port'')
     \<and> \<not> missing (py_or (format_ipv6_addr e (rget rd ''service_host''))
                      (rget rd ''service_host''))
     \<and> \<not> missing (rget (local_ctxt e rd) ''api_version'')
     \<and> (rget (local_ctxt e rd) ''api_version'' = PStr ''3''
          \<and> \<not> truthy (config e ''default_domain'')
        \<longrightarrow> \<not> missing (rget rd ''admin_domain_id''))"
proof -
  define api where "api = (case map_of rd ''api_version'' of None \<Rightarrow> PStr ''2'' | Some v \<Rightarrow> v)"
  have a: "rget (local_ctxt e rd) ''api_version'' = api"
    by (simp add: rget_def [of "local_ctxt e rd"] local_ctxt_api_version api_def)
  have p: "py_or (rget rd ''service_protocol'') (PStr ''http'') \<noteq> PNone"
          "py_or (rget rd ''service_protocol'') (PStr ''http'') \<noteq> PStr []"
    using protocol_not_missing [of rd] by (simp_all add: missing_def)
  show ?thesis
    unfolding a
    by (simp add: complete_def context_complete_def local_ctxt_def Let_def
          rget_def [of "_ # _"] api_def [symmetric] missing_def p)
qed

text \<open>
  C3, amended. Before the completeness check \<open>service_protocol\<close> is replaced by
  "http" whenever it is absent or false-valued, and \<open>api_version\<close> by "2" when its key
  is absent, so the protocol never causes rejection and neither does an absent
  \<open>api_version\<close>. A record passes the check exactly when \<open>service_port\<close> is neither
  absent nor empty, the host (after IPv6 formatting) is neither absent nor empty, a
  present \<open>api_version\<close> is neither null nor empty, and, if the version is "3" and no
  \<open>default_domain\<close> is configured, \<open>admin_domain_id\<close> is neither absent nor empty.
  A record that fails the check leaves the context and the regions as they were.
\<close>

theorem record_discarded_iff:
  "map_of (local_ctxt e rd) ''service_protocol'' =
     Some (if truthy (rget rd ''service_protocol'') then rget rd ''service_protocol''
           else PStr ''http'')
   \<and> map_of (local_ctxt e rd) ''api_version'' =
       Some (case map_of rd ''api_version'' of None \<Rightarrow> PStr ''2'' | Some v \<Rightarrow> v)
   \<and> \<not> missing (rget (local_ctxt e rd) ''service_protocol'')
   \<and> (map_of rd ''api_version'' = None \<longrightarrow> \<not> missing (rget (local_ctxt e rd) ''api_version''))
   \<and> (complete e rd \<longleftrightarrow>
        \<not> missing (rget rd ''service_port'')
        \<and> \<not> missing (py_or (format_ipv6_addr e (rget rd ''service_host''))
                         (rget rd ''service_host''))
        \<and> \<not> missing (rget (local_ctxt e rd) ''api_version'')
        \<and> (rget (local_ctxt e rd) ''api_version'' = PStr ''3''
             \<and> \<not> truthy (config e ''default_domain'')
           \<longrightarrow> \<not> missing (rget rd ''admin_domain_id'')))
   \<and> (\<not> complete e rd \<longrightarrow> identity_unit e st rd = Inr st)"
proof (intro conjI)
  show "map_of (local_ctxt e rd) ''service_protocol'' =
     Some (if truthy (rget rd ''service_protocol'') then rget rd ''service_protocol''
           else PStr ''http'')"
    by (simp add: local_ctxt_protocol py_or_def)
  show "map_of (local_ctxt e rd) ''api_version'' =
       Some (case map_of rd ''api_version'' of None \<Rightarrow> PStr ''2'' | Some v \<Rightarrow> v)"
    by (rule local_ctxt_api_version)
  show "\<not> missing (rget (local_ctxt e rd) ''service_protocol'')"
    by (simp add: rget_def [of "local_ctxt e rd"] local_ctxt_protocol protocol_not_missing)
  show "map_of rd ''api_version'' = None \<longrightarrow> \<not> missing (rget (local_ctxt e rd) ''api_version'')"
    by (simp add: rget_def [of "local_ctxt e rd"] local_ctxt_api_version missing_def)
  show "\<not> complete e rd \<longrightarrow> identity_unit e st rd = Inr st"
    by (simp add: identity_unit_def complete_def Let_def)
qed (rule complete_iff)

theorem record_discarded_iff_witness:
  "\<not> missing (rget v3_record ''service_port'')
   \<and> rget (local_ctxt v3_env v3_record) ''api_version'' = PStr ''3''
   \<and> \<not> truthy (config v3_env ''default_domain'')
   \<and> missing (rget v3_record ''admin_domain_id'')
   \<and> \<not> complete v3_env v3_record
   \<and> identity_unit v3_env ([], []) v3_record = Inr ([], [])
   \<and> map_of keystone_ok ''api_version'' = None
   \<and> \<not> missing (rget (local_ctxt keystone_env keystone_ok) ''api_version'')
   \<and> complete keystone_env keystone_ok"
proof -
  have a: "rget (local_ctxt v3_env v3_record) ''api_version'' = PStr ''3''"
    by (simp add: rget_def [of "local_ctxt v3_env v3_record"] local_ctxt_api_version)
       (simp add: v3_record_def)
  have b: "\<not> truthy (config v3_env ''default_domain'')"
    by (simp add: v3_env_def bare_env_def conf_of_def)
  have c: "missing (rget v3_record ''admin_domain_id'')"
          "\<not> missing (rget v3_record ''service_port'')"
    by (simp_all add: v3_record_def rget_def missing_def)
  from record_discarded_iff [of v3_env v3_record "([], [])"] a b c
  have d: "\<not> complete v3_env v3_record" by blast
  with record_discarded_iff [of v3_env v3_record "([], [])"]
  have e: "identity_unit v3_env ([], []) v3_record = Inr ([], [])" by blast
  have f: "map_of keystone_ok ''api_version'' = None"
    by (simp add: keystone_ok_def)
  with record_discarded_iff [of keystone_env keystone_ok "([], [])"]
  have g: "\<not> missing (rget (local_ctxt keystone_env keystone_ok) ''api_version'')" by blast
  have h: "\<not> missing (rget keystone_ok ''service_port'')"
    "\<not> missing (py_or (format_ipv6_addr keystone_env (rget keystone_ok ''service_host''))
                      (rget keystone_ok ''service_host''))"
    "rget (local_ctxt keystone_env keystone_ok) ''api_version'' \<noteq> PStr ''3''"
    by (simp_all add: keystone_ok_def rget_def missing_def py_or_def keystone_env_def bare_env_def
         local_ctxt_def)
  with g record_discarded_iff [of keystone_env keystone_ok "([], [])"]
  have i: "complete keystone_env keystone_ok" by blast
  from a b c d e f g i show ?thesis by blast
qed

subsection \<open>Regions\<close>

text \<open>
  C4, as stated, fails: a record that carries a region value but no host is dropped by
  the completeness check before its regions are looked at. Its two region names would
  make two distinct pairs, yet nothing is accumulated and the returned context has no
  \<open>regions\<close> key.
\<close>

theorem hostless_regions_counterexample:
  "records hostless_env = [hostless_record]
   \<and> rget hostless_record ''region'' = PStr ''east west''
   \<and> all_region_pairs hostless_env =
       [(''http://None:5000/v2.0'', ''east''), (''http://None:5000/v2.0'', ''west'')]
   \<and> identity_call hostless_env =
       ([(''Generating template context for identity-service'', None)], Inr [])"
  by (simp add: records_def hostless_env_def bare_env_def hostless_record_def local_ctxt_def
        Let_def rget_def py_or_def conf_of_def context_complete_def identity_call_def
        identity_unit_def endpoint_types_def all_region_pairs_def region_pairs_def
        endpoint_of_def split_ws_def is_space_def)

lemma fold_insert_regions:
  "set (fold (\<lambda>reg rs. List.insert (ep, reg) rs) xs regs) = set regs \<union> Pair ep ` set xs
   \<and> (distinct regs \<longrightarrow> distinct (fold (\<lambda>reg rs. List.insert (ep, reg) rs) xs regs))"
  by (induction xs arbitrary: regs) auto

lemma add_regions_set:
  assumes "add_regions (local_ctxt e rd) (rget rd ''region'') regs = Inr regs'"
  shows "set regs' = set regs \<union> set (region_pairs e rd)"
    and "distinct regs \<Longrightarrow> distinct regs'"
  using assms fold_insert_regions [of "endpoint_of (local_ctxt e rd)" _ regs]
  by (auto simp: add_regions_def region_pairs_def Let_def split: pyval.splits)

lemma identity_records_regions:
  "identity_records e rds st = Inr st' \<Longrightarrow>
   set (snd st') = set (snd st) \<union> set (concat (map (region_pairs e) (filter (complete e) rds)))
   \<and> (distinct (snd st) \<longrightarrow> distinct (snd st'))"
proof (induction rds arbitrary: st)
  case Nil
  then show ?case by auto
next
  case (Cons rd rds)
  from Cons.prems obtain st1 where
    step: "identity_unit e st rd = Inr st1" and rest: "identity_records e rds st1 = Inr st'"
    by (auto split: sum.splits)
  note ih = Cons.IH [OF rest]
  show ?case
  proof (cases "complete e rd")
    case False
    with step have "st1 = st" by (auto simp: identity_unit_def complete_def Let_def)
    with ih False show ?thesis by simp
  next
    case True
    with step obtain regs1 where
      ar: "add_regions (local_ctxt e rd) (rget rd ''region'') (snd st) = Inr regs1"
      and s1: "snd st1 = regs1"
      by (auto simp: identity_unit_def complete_def Let_def split: sum.splits)
    from add_regions_set [OF ar] s1 ih True show ?thesis by auto
  qed
qed

lemma endpoint_types_regions:
  "endpoint_types c v = (lg, Inr c') \<Longrightarrow> map_of c' ''regions'' = map_of c ''regions''"
  by (auto simp: endpoint_types_def Let_def update_conv'
           split: if_splits pyval.splits prod.splits sum.splits list.splits)

lemma loop_ctxt_no_regions:
  "identity_records e rds ([], []) = Inr (c, regs) \<Longrightarrow> map_of c ''regions'' = None"
  using identity_records_ctxt [of e rds "([], [])" "(c, regs)"]
  by (auto simp: as_ctxt_def local_ctxt_def Let_def split: option.splits)

lemma keystone_pairs:
  "complete_region_pairs keystone_env =
     [(''http://10.0.0.6:5000/v2.0'', ''RegionOne''), (''http://10.0.0.6:5000/v2.0'', ''RegionTwo'')]"
  by (simp add: complete_region_pairs_def keystone_records keystone_complete)
     (simp add: region_pairs_def keystone_ok_def rget_def local_ctxt_def Let_def py_or_def
        keystone_env_def bare_env_def conf_of_def endpoint_of_def split_ws_def is_space_def)

text \<open>
  C4, amended. Only records that pass the completeness check contribute: each
  whitespace-separated region name of such a record is paired with the endpoint
  \<open>{protocol}://{host}:{port}/v2.0\<close> built from it, and the pairs are collected without
  duplicates. The returned context has a \<open>regions\<close> key if and only if strictly more
  than one distinct pair was collected, and then it is the list of
  \<open>{endpoint, title}\<close> entries sorted by endpoint, then title.
\<close>

theorem regions_key_iff:
  assumes "identity_call e = (lg, Inr ctxt)"
  shows "(map_of ctxt ''regions'' \<noteq> None \<longleftrightarrow> 1 < card (set (complete_region_pairs e)))
         \<and> (1 < card (set (complete_region_pairs e)) \<longrightarrow>
              map_of ctxt ''regions'' =
                Some (PList (map region_entry
                               (sorted_list_of_set (set (complete_region_pairs e))))))"
proof -
  from assms obtain c regs lg' where
    loop: "identity_records e (records e) ([], []) = Inr (c, regs)"
    and ep: "endpoint_types
               (if length regs > 1
                then AList.update ''regions'' (PList (map region_entry (sort regs))) c
                else c) (config e ''endpoint-type'') = (lg', Inr ctxt)"
    by (rule identity_call_loop)
  from identity_records_regions [OF loop]
  have regs: "set regs = set (complete_region_pairs e)" and d: "distinct regs"
    by (simp_all add: complete_region_pairs_def)
  from d have len: "length regs = card (set (complete_region_pairs e))"
    using distinct_card [of regs] regs by simp
  from d have srt: "sort regs = sorted_list_of_set (set (complete_region_pairs e))"
    using sorted_list_of_set_sort_remdups [of regs] regs by (simp add: distinct_remdups_id)
  have none: "map_of c ''regions'' = None"
    by (rule loop_ctxt_no_regions [OF loop])
  from endpoint_types_regions [OF ep]
  have "map_of ctxt ''regions'' =
          (if 1 < length regs
           then Some (PList (map region_entry (sort regs))) else None)"
    by (simp add: update_conv' none split: if_splits)
  then show ?thesis by (simp add: len srt)
qed

theorem regions_key_iff_witness:
  "identity_call keystone_env =
     ([(''Generating template context for identity-service'', None)], Inr keystone_ctxt)
   \<and> 1 < card (set (complete_region_pairs keystone_env))
   \<and> map_of keystone_ctxt ''regions'' =
       Some (PList (map region_entry
                      [(''http://10.0.0.6:5000/v2.0'', ''RegionOne''),
                       (''http://10.0.0.6:5000/v2.0'', ''RegionTwo'')]))"
proof -
  have c: "1 < card (set (complete_region_pairs keystone_env))"
    by (simp add: keystone_pairs)
  have s: "sorted_list_of_set (set (complete_region_pairs keystone_env)) =
             [(''http://10.0.0.6:5000/v2.0'', ''RegionOne''),
              (''http://10.0.0.6:5000/v2.0'', ''RegionTwo'')]"
    by (simp add: keystone_pairs sorted_list_of_set_sort_remdups)
  from regions_key_iff [OF keystone_call] c
  have "map_of keystone_ctxt ''regions'' =
          Some (PList (map region_entry
                         (sorted_list_of_set (set (complete_region_pairs keystone_env)))))"
    by blast
  with keystone_call c s show ?thesis by simp
qed

section \<open>Plugin settings\<close>

lemma py_lt_irrefl: "\<not> py_lt a a"
  by (cases a) auto

lemma py_lt_trans: "py_lt a b \<Longrightarrow> py_lt b c \<Longrightarrow> py_lt a c"
  by (cases a; cases b; cases c) auto






















lemma collect_settings_none:
  "\<forall>rid\<in>set rids. \<not> carries_settings e rid \<Longrightarrow> collect_settings e rids acc = acc"
  by (induction rids arbitrary: acc)
     (auto simp: carries_settings_def Let_def split: list.splits)

text \<open>
  C10. For every relation state the plugin-settings context is a mapping whose
  \<open>settings\<close> key is present and bound to a list; the list is empty when no relation
  id carries both required keys, which includes the state without any dashboard-plugin
  relation; a relation id without related units is skipped and the loop goes on.
\<close>

theorem settings_key_always_bound:
  "(\<exists>l. local_settings_call e = [(''settings'', PList l)]
        \<and> map_of (local_settings_call e) ''settings'' = Some (PList l))
   \<and> ((\<forall>rid\<in>set (relation_ids e ''dashboard-plugin''). \<not> carries_settings e rid) \<longrightarrow>
         local_settings_call e = [(''settings'', PList [])])
   \<and> (related_units e rid = [] \<longrightarrow>
         collect_settings e (rid # rids) acc = collect_settings e rids acc)"
proof (intro conjI impI)
  show "\<exists>l. local_settings_call e = [(''settings'', PList l)]
        \<and> map_of (local_settings_call e) ''settings'' = Some (PList l)"
    by (simp add: local_settings_call_def settings_ctxt_def)
next
  assume "\<forall>rid\<in>set (relation_ids e ''dashboard-plugin''). \<not> carries_settings e rid"
  then have "plugin_relations e = []"
    by (simp add: plugin_relations_def collect_settings_none)
  then show "local_settings_call e = [(''settings'', PList [])]"
    by (simp add: local_settings_call_def settings_ctxt_def py_sorted_def)
next
  assume "related_units e rid = []"
  then show "collect_settings e (rid # rids) acc = collect_settings e rids acc"
    by simp
qed

theorem settings_key_always_bound_witness:
  "map (carries_settings plugin_env_unset) (relation_ids plugin_env_unset ''dashboard-plugin'')
     = [False, False]
   \<and> relation_ids plugin_env_unset ''dashboard-plugin''
       = [''dashboard-plugin:1'', ''dashboard-plugin:3'']
   \<and> local_settings_call plugin_env_unset = [(''settings'', PList [])]
   \<and> related_units plugin_env ''dashboard-plugin:1'' = []
   \<and> collect_settings plugin_env [''dashboard-plugin:1'', ''dashboard-plugin:2''] []
       = collect_settings plugin_env [''dashboard-plugin:2''] []"
proof -
  have r: "relation_ids plugin_env_unset ''dashboard-plugin''
             = [''dashboard-plugin:1'', ''dashboard-plugin:3'']"
    by (simp add: plugin_env_unset_def)
  have a: "\<forall>rid\<in>set (relation_ids plugin_env_unset ''dashboard-plugin'').
             \<not> carries_settings plugin_env_unset rid"
    by (simp add: r) (simp add: carries_settings_def plugin_env_unset_def plugin_env_def)
  with settings_key_always_bound [of plugin_env_unset]
  have b: "local_settings_call plugin_env_unset = [(''settings'', PList [])]" by blast
  have c: "related_units plugin_env ''dashboard-plugin:1'' = []"
    by (simp add: plugin_env_def)
  with settings_key_always_bound
         [of plugin_env "''dashboard-plugin:1''" "[''dashboard-plugin:2'']" "[]"]
  have d: "collect_settings plugin_env [''dashboard-plugin:1'', ''dashboard-plugin:2''] []
       = collect_settings plugin_env [''dashboard-plugin:2''] []" by blast
  from a r have m: "map (carries_settings plugin_env_unset)
                      (relation_ids plugin_env_unset ''dashboard-plugin'') = [False, False]"
    by simp
  from m r b c d show ?thesis by blast
qed

section \<open>Web server contexts\<close>

text \<open>
  C6. The \<open>enforce_ssl\<close> flag of the web-server context is true if and only if the
  operator has requested SSL enforcement and both a certificate and a key are
  resolvable (neither is \<open>None\<close> or empty). When enforcement is requested and
  certificate or key is missing, the flag stays false and exactly one diagnostic, at
  level WARNING, is emitted; the call returns a context in every case, as it has no
  failing path.
\<close>

theorem enforce_ssl_iff:
  "map_of (snd (apache_call e)) ''enforce_ssl'' =
     Some (PVal (PBool (truthy (config e ''enforce-ssl'')
                        \<and> truthy (fst (get_cert e)) \<and> truthy (snd (get_cert e)))))
   \<and> (truthy (config e ''enforce-ssl'')
        \<and> \<not> (truthy (fst (get_cert e)) \<and> truthy (snd (get_cert e))) \<longrightarrow>
        map_of (snd (apache_call e)) ''enforce_ssl'' = Some (PVal (PBool False))
        \<and> fst (apache_call e) =
            [(''Enforce ssl redirect requested but ssl not configured - skipping redirect'',
              Some WARNING)])
   \<and> (\<not> truthy (config e ''enforce-ssl'')
        \<or> (truthy (fst (get_cert e)) \<and> truthy (snd (get_cert e))) \<longrightarrow>
        fst (apache_call e) = [])"
  by (simp add: apache_call_def Let_def py_all_def)

theorem enforce_ssl_iff_witness:
  "truthy (config enforce_env ''enforce-ssl'')
   \<and> \<not> (truthy (fst (get_cert enforce_env)) \<and> truthy (snd (get_cert enforce_env)))
   \<and> map_of (snd (apache_call enforce_env)) ''enforce_ssl'' = Some (PVal (PBool False))
   \<and> fst (apache_call enforce_env) =
       [(''Enforce ssl redirect requested but ssl not configured - skipping redirect'',
         Some WARNING)]
   \<and> truthy (fst (get_cert enforce_ssl_env)) \<and> truthy (snd (get_cert enforce_ssl_env))
   \<and> map_of (snd (apache_call enforce_ssl_env)) ''enforce_ssl'' = Some (PVal (PBool True))
   \<and> fst (apache_call enforce_ssl_env) = []"
proof -
  have a: "truthy (config enforce_env ''enforce-ssl'')"
          "truthy (config enforce_ssl_env ''enforce-ssl'')"
    by (simp_all add: enforce_ssl_env_def enforce_env_def conf_of_def)
  have b: "\<not> (truthy (fst (get_cert enforce_env)) \<and> truthy (snd (get_cert enforce_env)))"
    by (simp add: enforce_env_def bare_env_def)
  have c: "truthy (fst (get_cert enforce_ssl_env))" "truthy (snd (get_cert enforce_ssl_env))"
    by (simp_all add: enforce_ssl_env_def)
  from enforce_ssl_iff [of enforce_env] a b
  have d: "map_of (snd (apache_call enforce_env)) ''enforce_ssl'' = Some (PVal (PBool False))
        \<and> fst (apache_call enforce_env) =
            [(''Enforce ssl redirect requested but ssl not configured - skipping redirect'',
              Some WARNING)]"
    by blast
  from enforce_ssl_iff [of enforce_ssl_env] a c
  have e: "map_of (snd (apache_call enforce_ssl_env)) ''enforce_ssl'' = Some (PVal (PBool True))
           \<and> fst (apache_call enforce_ssl_env) = []"
    by simp
  from a b c d e show ?thesis by blast
qed



subsection \<open>SSL material\<close>

lemma ssl_events_cases:
  assumes "use_local_ca e"
  shows "fst (apache_ssl_call e) = []
         \<or> (\<exists>ca. fst (apache_ssl_call e) = [InstallCaCert ca]
               \<and> \<not> (truthy (fst (get_cert e)) \<and> truthy (snd (get_cert e))))
         \<or> (truthy (fst (get_cert e)) \<and> truthy (snd (get_cert e))
            \<and> ((\<exists>ca x. apache_ssl_call e =
                    ([InstallCaCert ca, OpenWrite dashboard_cert], Inl x))
               \<or> (\<exists>ca cert x. apache_ssl_call e =
                    ([InstallCaCert ca, OpenWrite dashboard_cert,
                      WriteData dashboard_cert cert, OpenWrite dashboard_key], Inl x))
               \<or> (\<exists>ca cert key. apache_ssl_call e =
                    ([InstallCaCert ca, OpenWrite dashboard_cert,
                      WriteData dashboard_cert cert, OpenWrite dashboard_key,
                      WriteData dashboard_key key, Chmod dashboard_key mode_0600],
                     Inr (ssl_configured_at dashboard_cert dashboard_key)))))"
  using assms
  by (auto simp: apache_ssl_call_def Let_def py_all_def split: sum.splits)

lemma fold_local_ca:
  "fold (\<lambda>rid u. if related_units e rid \<noteq> [] then False else u) rids b
     = (b \<and> (\<forall>rid\<in>set rids. related_units e rid = []))"
  by (induction rids arbitrary: b) auto

lemma use_local_ca_iff:
  "use_local_ca e \<longleftrightarrow> (\<forall>rid\<in>set (relation_ids e ''certificates''). related_units e rid = [])"
  by (simp add: use_local_ca_def fold_local_ca)

lemma ssl_paths_differ: "dashboard_cert \<noteq> dashboard_key"
  by (simp add: dashboard_cert_def dashboard_key_def)

lemma key_write_then_chmod:
  assumes "[InstallCaCert ca, OpenWrite dashboard_cert, WriteData dashboard_cert cert,
            OpenWrite dashboard_key, WriteData dashboard_key key, Chmod dashboard_key m]
           = pre @ WriteData dashboard_key d # post"
  shows "post = [Chmod dashboard_key m]"
  using assms ssl_paths_differ
  by (auto simp: append_eq_Cons_conv Cons_eq_append_conv)

text \<open>
  C7. On the local-authority path (no relation id of the certificates relation has
  units): without a CA certificate the result is exactly \<open>{ssl_configured: false}\<close>
  and nothing happens on disk; the certificate file or the key file is opened or
  written only when both certificate and key are present; a call that returns has
  written both files or neither; and a write to the key file is followed at once, and
  only, by the change of its mode to \<open>0600\<close>, which grants nothing to group or others.
\<close>

theorem local_ca_ssl_material:
  assumes "\<forall>rid\<in>set (relation_ids e ''certificates''). related_units e rid = []"
  shows "(\<not> truthy (get_ca_cert e) \<longrightarrow> apache_ssl_call e = ([], Inr ssl_unconfigured))
         \<and> ((\<exists>ev\<in>set (fst (apache_ssl_call e)). touches_ssl_file ev) \<longrightarrow>
               truthy (fst (get_cert e)) \<and> truthy (snd (get_cert e)))
         \<and> (\<forall>res. snd (apache_ssl_call e) = Inr res \<longrightarrow>
               ((\<exists>d. WriteData dashboard_cert d \<in> set (fst (apache_ssl_call e)))
                 \<longleftrightarrow> (\<exists>d. WriteData dashboard_key d \<in> set (fst (apache_ssl_call e)))))
         \<and> (\<forall>pre d post. fst (apache_ssl_call e) = pre @ WriteData dashboard_key d # post \<longrightarrow>
               post = [Chmod dashboard_key mode_0600])
         \<and> mode_0600 div 64 = 6 \<and> mode_0600 mod 64 = 0"
proof -
  from assms have loc: "use_local_ca e" by (simp add: use_local_ca_iff)
  have p1: "\<not> truthy (get_ca_cert e) \<longrightarrow> apache_ssl_call e = ([], Inr ssl_unconfigured)"
    using loc by (simp add: apache_ssl_call_def Let_def)
  have p2: "(\<exists>ev\<in>set (fst (apache_ssl_call e)). touches_ssl_file ev) \<longrightarrow>
               truthy (fst (get_cert e)) \<and> truthy (snd (get_cert e))"
    using ssl_events_cases [OF loc] by auto
  have p3: "\<forall>res. snd (apache_ssl_call e) = Inr res \<longrightarrow>
               ((\<exists>d. WriteData dashboard_cert d \<in> set (fst (apache_ssl_call e)))
                 \<longleftrightarrow> (\<exists>d. WriteData dashboard_key d \<in> set (fst (apache_ssl_call e))))"
    using ssl_events_cases [OF loc] ssl_paths_differ by auto
  have p4: "\<forall>pre d post. fst (apache_ssl_call e) = pre @ WriteData dashboard_key d # post \<longrightarrow>
               post = [Chmod dashboard_key mode_0600]"
  proof (intro allI impI)
    fix pre d post
    assume h: "fst (apache_ssl_call e) = pre @ WriteData dashboard_key d # post"
    from ssl_events_cases [OF loc] h ssl_paths_differ
    show "post = [Chmod dashboard_key mode_0600]"
      by (auto simp: append_eq_Cons_conv Cons_eq_append_conv)
  qed
  have p5: "mode_0600 div 64 = 6 \<and> mode_0600 mod 64 = 0"
    by (simp add: mode_0600_def)
  from p1 p2 p3 p4 p5 show ?thesis by blast
qed

lemma enforce_ssl_env_call:
  "apache_ssl_call enforce_ssl_env =
     ([InstallCaCert ''ca'', OpenWrite dashboard_cert, WriteData dashboard_cert ''cert'',
       OpenWrite dashboard_key, WriteData dashboard_key ''key'',
       Chmod dashboard_key mode_0600],
      Inr (ssl_configured_at dashboard_cert dashboard_key))"
  by (simp add: apache_ssl_call_def enforce_ssl_env_def enforce_env_def bare_env_def
        use_local_ca_def Let_def py_all_def py_b64decode_def)

theorem local_ca_ssl_material_witness:
  "map (related_units enforce_env) (relation_ids enforce_env ''certificates'') = [[]]
   \<and> \<not> truthy (get_ca_cert enforce_env)
   \<and> apache_ssl_call enforce_env = ([], Inr ssl_unconfigured)
   \<and> map (related_units enforce_ssl_env) (relation_ids enforce_ssl_env ''certificates'') = [[]]
   \<and> apache_ssl_call enforce_ssl_env =
       ([InstallCaCert ''ca'', OpenWrite dashboard_cert, WriteData dashboard_cert ''cert'',
         OpenWrite dashboard_key, WriteData dashboard_key ''key'',
         Chmod dashboard_key mode_0600],
        Inr (ssl_configured_at dashboard_cert dashboard_key))
   \<and> truthy (fst (get_cert enforce_ssl_env)) \<and> truthy (snd (get_cert enforce_ssl_env))"
proof -
  have a: "\<forall>rid\<in>set (relation_ids enforce_env ''certificates''). related_units enforce_env rid = []"
    by (simp add: enforce_env_def bare_env_def)
  have b: "\<not> truthy (get_ca_cert enforce_env)"
    by (simp add: enforce_env_def bare_env_def)
  from local_ca_ssl_material [OF a] b
  have c: "apache_ssl_call enforce_env = ([], Inr ssl_unconfigured)" by blast
  have d: "\<forall>rid\<in>set (relation_ids enforce_ssl_env ''certificates'').
         related_units enforce_ssl_env rid = []"
    by (simp add: enforce_ssl_env_def enforce_env_def bare_env_def)
  have t: "\<exists>ev\<in>set (fst (apache_ssl_call enforce_ssl_env)). touches_ssl_file ev"
    by (simp add: enforce_ssl_env_call)
  with local_ca_ssl_material [OF d]
  have f: "truthy (fst (get_cert enforce_ssl_env)) \<and> truthy (snd (get_cert enforce_ssl_env))"
    by blast
  have m: "map (related_units enforce_env) (relation_ids enforce_env ''certificates'') = [[]]"
    "map (related_units enforce_ssl_env) (relation_ids enforce_ssl_env ''certificates'') = [[]]"
    by (simp_all add: enforce_ssl_env_def enforce_env_def bare_env_def)
  from m b c f enforce_ssl_env_call show ?thesis by blast
qed

section \<open>Federated login\<close>

text \<open>
  C8, as stated, fails: only the first related unit of a relation id is read. Here the
  second unit of the relation supplies all three keys with decodable values, the first
  lacks one, and the context comes back empty.
\<close>

theorem second_unit_ignored_counterexample:
  "relation_ids websso_env ''websso-fid-service-provider'' = [''websso-fid-service-provider:0'']
   \<and> related_units websso_env ''websso-fid-service-provider:0'' = [''idp/0'', ''idp/1'']
   \<and> relation_get websso_env ''websso-fid-service-provider:0'' ''idp/1'' = idp_full
   \<and> has_websso_keys idp_full
   \<and> decodable websso_env idp_full
   \<and> websso_call websso_env = Inr []"
  by (simp add: websso_env_def bare_env_def has_websso_keys_def websso_keys_def idp_full_def
        idp_partial_def decodable_def py_json_loads_def rget_def quoted_def websso_call_def
        Let_def)

lemma decode_keys_decoded:
  "list_all (\<lambda>k. \<not> isl (py_json_loads e (rget rd k))) ks \<Longrightarrow>
   decode_keys e rd ks = Inr (map (\<lambda>k. (k, decoded e (rget rd k))) ks)"
  by (induction ks) (auto simp: decoded_def split: sum.splits)

lemma decode_keys_fails:
  "\<not> list_all (\<lambda>k. \<not> isl (py_json_loads e (rget rd k))) ks \<Longrightarrow> isl (decode_keys e rd ks)"
  by (induction ks) (auto split: sum.splits)

lemma websso_collect_ok:
  "\<forall>rd\<in>set (filter has_websso_keys (first_units e rids)). decodable e rd \<Longrightarrow>
   websso_collect e rids acc =
     Inr (acc @ map (descriptor e) (filter has_websso_keys (first_units e rids)))"
proof (induction rids arbitrary: acc)
  case Nil
  then show ?case by (simp add: first_units_def)
next
  case (Cons rid rids)
  show ?case
  proof (cases "related_units e rid")
    case Nil
    with Cons show ?thesis by (simp add: first_units_def)
  next
    case (Cons unit units)
    show ?thesis
    proof (cases "has_websso_keys (relation_get e rid unit)")
      case False
      with Cons Cons.prems Cons.IH show ?thesis
        by (simp add: first_units_def has_websso_keys_def)
    next
      case True
      with Cons Cons.prems have "decodable e (relation_get e rid unit)"
        by (simp add: first_units_def)
      then have "decode_keys e (relation_get e rid unit) websso_keys =
                   Inr (map (\<lambda>k. (k, decoded e (rget (relation_get e rid unit) k))) websso_keys)"
        unfolding decodable_def by (rule decode_keys_decoded)
      with True Cons Cons.prems Cons.IH show ?thesis
        by (simp add: first_units_def has_websso_keys_def descriptor_def)
    qed
  qed
qed

lemma websso_collect_fails:
  "\<exists>rd\<in>set (filter has_websso_keys (first_units e rids)). \<not> decodable e rd \<Longrightarrow>
   isl (websso_collect e rids acc)"
proof (induction rids arbitrary: acc)
  case Nil
  then show ?case by (simp add: first_units_def)
next
  case (Cons rid rids)
  show ?case
  proof (cases "related_units e rid")
    case Nil
    with Cons show ?thesis by (simp add: first_units_def)
  next
    case (Cons unit units)
    show ?thesis
    proof (cases "has_websso_keys (relation_get e rid unit)")
      case False
      with Cons Cons.prems Cons.IH show ?thesis
        by (simp add: first_units_def has_websso_keys_def)
    next
      case True
      show ?thesis
      proof (cases "decodable e (relation_get e rid unit)")
        case False
        then have "isl (decode_keys e (relation_get e rid unit) websso_keys)"
          unfolding decodable_def by (rule decode_keys_fails)
        with True Cons show ?thesis
          by (auto simp: has_websso_keys_def split: sum.splits)
      next
        case d: True
        then have "decode_keys e (relation_get e rid unit) websso_keys =
                   Inr (map (\<lambda>k. (k, decoded e (rget (relation_get e rid unit) k))) websso_keys)"
          unfolding decodable_def by (rule decode_keys_decoded)
        with True d Cons Cons.prems Cons.IH show ?thesis
          by (simp add: first_units_def has_websso_keys_def)
      qed
    qed
  qed
qed

lemma websso_two_suppliers:
  "suppliers websso_env_two = [idp_full]"
  "suppliers websso_env_bad = [idp_unquoted]"
  by (simp_all add: suppliers_def first_units_def websso_env_two_def websso_env_bad_def
        websso_env_def bare_env_def has_websso_keys_def websso_keys_def idp_full_def
        idp_partial_def idp_unquoted_def)

lemma websso_sample_decodable:
  "decodable websso_env_two idp_full"
  "\<not> decodable websso_env_bad idp_unquoted"
  by (simp_all add: decodable_def websso_keys_def py_json_loads_def rget_def idp_full_def
        idp_unquoted_def websso_env_two_def websso_env_bad_def websso_env_def bare_env_def
        quoted_def)

text \<open>
  C8, amended. The federation context reads the first related unit of each relation
  id. If every such unit that supplies all three keys has JSON-decodable values, the
  call returns a mapping that holds \<open>websso_data\<close> exactly when at least one of these
  units supplies all three keys, bound to their descriptors in relation-id order, and
  otherwise the empty mapping: the key is absent, never bound to an empty list, and a
  unit that lacks one of the keys contributes nothing. If one of those units has a
  value that does not decode, the call raises.
\<close>

theorem websso_data_iff:
  "((\<forall>rd\<in>set (suppliers e). decodable e rd) \<longrightarrow>
      websso_call e =
        Inr (if suppliers e = [] then []
             else [(''websso_data'', PList (map (descriptor e) (suppliers e)))]))
   \<and> ((\<exists>rd\<in>set (suppliers e). \<not> decodable e rd) \<longrightarrow> isl (websso_call e))
   \<and> (\<forall>ctxt. websso_call e = Inr ctxt \<longrightarrow>
         (map_of ctxt ''websso_data'' \<noteq> None \<longleftrightarrow> suppliers e \<noteq> [])
         \<and> (suppliers e = [] \<longrightarrow> ctxt = [])
         \<and> map_of ctxt ''websso_data'' \<noteq> Some (PList []))"
proof -
  have ok: "websso_call e =
        Inr (if suppliers e = [] then []
             else [(''websso_data'', PList (map (descriptor e) (suppliers e)))])"
    if "\<forall>rd\<in>set (suppliers e). decodable e rd"
    using websso_collect_ok [of e "relation_ids e ''websso-fid-service-provider''" "[]"] that
    by (simp add: websso_call_def suppliers_def)
  have bad: "isl (websso_call e)" if "\<exists>rd\<in>set (suppliers e). \<not> decodable e rd"
    using websso_collect_fails [of e "relation_ids e ''websso-fid-service-provider''" "[]"] that
    by (auto simp: websso_call_def suppliers_def split: sum.splits)
  have ret: "(map_of ctxt ''websso_data'' \<noteq> None \<longleftrightarrow> suppliers e \<noteq> [])
         \<and> (suppliers e = [] \<longrightarrow> ctxt = [])
         \<and> map_of ctxt ''websso_data'' \<noteq> Some (PList [])"
    if r: "websso_call e = Inr ctxt" for ctxt
  proof (cases "\<forall>rd\<in>set (suppliers e). decodable e rd")
    case True
    from ok [OF True] r show ?thesis by (auto split: if_splits)
  next
    case False
    then have "isl (websso_call e)" using bad by blast
    with r show ?thesis by simp
  qed
  from ok bad ret show ?thesis by blast
qed

theorem websso_data_iff_witness:
  "map (decodable websso_env_two) (suppliers websso_env_two) = [True]
   \<and> suppliers websso_env_two = [idp_full]
   \<and> websso_call websso_env_two =
       Inr [(''websso_data'', PList [descriptor websso_env_two idp_full])]
   \<and> descriptor websso_env_two idp_full =
       PDict [(''protocol-name'', PVal (PStr ''saml2'')),
              (''idp-name'', PVal (PStr ''test-idp'')),
              (''user-facing-name'', PVal (PStr ''Test IdP''))]
   \<and> suppliers websso_env_bad = [idp_unquoted]
   \<and> \<not> decodable websso_env_bad idp_unquoted
   \<and> isl (websso_call websso_env_bad)"
proof -
  have a: "\<forall>rd\<in>set (suppliers websso_env_two). decodable websso_env_two rd"
    by (simp add: websso_two_suppliers websso_sample_decodable)
  with websso_data_iff [of websso_env_two]
  have b: "websso_call websso_env_two =
       Inr [(''websso_data'', PList [descriptor websso_env_two idp_full])]"
    by (simp add: websso_two_suppliers)
  have c: "descriptor websso_env_two idp_full =
       PDict [(''protocol-name'', PVal (PStr ''saml2'')),
              (''idp-name'', PVal (PStr ''test-idp'')),
              (''user-facing-name'', PVal (PStr ''Test IdP''))]"
    by (simp add: descriptor_def websso_keys_def decoded_def py_json_loads_def rget_def
          idp_full_def websso_env_two_def websso_env_def bare_env_def quoted_def)
  have d: "\<exists>rd\<in>set (suppliers websso_env_bad). \<not> decodable websso_env_bad rd"
    by (simp add: websso_two_suppliers websso_sample_decodable)
  with websso_data_iff [of websso_env_bad]
  have f: "isl (websso_call websso_env_bad)" by blast
  have m: "map (decodable websso_env_two) (suppliers websso_env_two) = [True]"
    by (simp add: websso_two_suppliers websso_sample_decodable)
  from m b c f websso_two_suppliers websso_sample_decodable show ?thesis by blast
qed

section \<open>Dashboard settings\<close>

text \<open>
  C9, as stated, fails: the dashboard settings are one dictionary literal, so every key
  is always present. With \<open>default-role\<close> unset the call returns, and the key
  \<open>default_role\<close> is present and bound to \<open>None\<close> rather than omitted.
\<close>

theorem absent_option_bound_to_none_counterexample:
  "config horizon_env ''default-role'' = PNone
   \<and> (case horizon_call horizon_env of
         Inl x \<Rightarrow> False
       | Inr ctxt \<Rightarrow> map_of ctxt ''default_role'' = Some (PVal PNone))"
  by (simp add: horizon_env_def bare_env_def conf_of_def horizon_call_def)

lemma horizon_call_returns:
  assumes "bool_from_string e (config e ''offline-compression'') = Inr b1"
    and "bool_from_string e (config e ''debug'') = Inr b2"
    and "bool_from_string e (config e ''ubuntu-theme'') = Inr b3"
  obtains ctxt where "horizon_call e = Inr ctxt" "map fst ctxt = horizon_keys"
    "map_of ctxt ''compress_offline'' = Some (PVal (PBool b1))"
    "map_of ctxt ''debug'' = Some (PVal (PBool b2))"
    "map_of ctxt ''ubuntu_theme'' = Some (PVal (PBool b3))"
    "map_of ctxt ''webroot'' = Some (PVal (py_or (config e ''webroot'') (PStr ''/'')))"
    "map_of ctxt ''secret'' = Some (PVal (py_or (config e ''secret'') (PStr (pwgen e))))"
    "map_of ctxt ''support_profile'' =
       Some (PVal (if config e ''profile'' = PStr ''cisco'' then PStr ''cisco'' else PNone))"
    "map_of ctxt ''multi_domain'' = Some (PVal (PBool (\<not> truthy (config e ''default-domain''))))"
    "\<forall>p\<in>set passed_through. map_of ctxt (snd p) = Some (PVal (config e (fst p)))"
  using assms
  by (simp add: horizon_call_def horizon_keys_def passed_through_def)

lemma horizon_call_raises:
  "isl (bool_from_string e (config e ''offline-compression''))
   \<or> isl (bool_from_string e (config e ''debug''))
   \<or> isl (bool_from_string e (config e ''ubuntu-theme'')) \<Longrightarrow> isl (horizon_call e)"
  by (cases "bool_from_string e (config e ''offline-compression'')";
      cases "bool_from_string e (config e ''debug'')";
      cases "bool_from_string e (config e ''ubuntu-theme'')")
     (simp_all add: horizon_call_def)

text \<open>
  C9, amended. The dashboard-settings generator never omits a key. Whenever
  \<open>bool_from_string\<close> accepts the values of \<open>offline-compression\<close>, \<open>debug\<close> and
  \<open>ubuntu-theme\<close>, it returns a mapping with all twenty-two keys, in which an absent
  optional configuration value appears as a key bound to \<open>None\<close> (\<open>webroot\<close> falls
  back to "/", \<open>secret\<close> to a generated password, \<open>multi_domain\<close> to true). When
  \<open>bool_from_string\<close> rejects one of the three values, the generator raises.
\<close>

theorem horizon_keys_always_present:
  "(bool_from_string e (config e ''offline-compression'') = Inr b1
    \<and> bool_from_string e (config e ''debug'') = Inr b2
    \<and> bool_from_string e (config e ''ubuntu-theme'') = Inr b3 \<longrightarrow>
      (\<exists>ctxt. horizon_call e = Inr ctxt
         \<and> map fst ctxt = horizon_keys
         \<and> (\<forall>p\<in>set passed_through.
               config e (fst p) = PNone \<longrightarrow> map_of ctxt (snd p) = Some (PVal PNone))
         \<and> (config e ''webroot'' = PNone \<longrightarrow>
               map_of ctxt ''webroot'' = Some (PVal (PStr ''/'')))
         \<and> (config e ''secret'' = PNone \<longrightarrow>
               map_of ctxt ''secret'' = Some (PVal (PStr (pwgen e))))
         \<and> (config e ''profile'' = PNone \<longrightarrow>
               map_of ctxt ''support_profile'' = Some (PVal PNone))
         \<and> (config e ''default-domain'' = PNone \<longrightarrow>
               map_of ctxt ''multi_domain'' = Some (PVal (PBool True)))))
   \<and> (isl (bool_from_string e (config e ''offline-compression''))
       \<or> isl (bool_from_string e (config e ''debug''))
       \<or> isl (bool_from_string e (config e ''ubuntu-theme'')) \<longrightarrow> isl (horizon_call e))"
proof (intro conjI impI)
  assume h: "bool_from_string e (config e ''offline-compression'') = Inr b1
    \<and> bool_from_string e (config e ''debug'') = Inr b2
    \<and> bool_from_string e (config e ''ubuntu-theme'') = Inr b3"
  then obtain ctxt where c: "horizon_call e = Inr ctxt" "map fst ctxt = horizon_keys"
    "map_of ctxt ''webroot'' = Some (PVal (py_or (config e ''webroot'') (PStr ''/'')))"
    "map_of ctxt ''secret'' = Some (PVal (py_or (config e ''secret'') (PStr (pwgen e))))"
    "map_of ctxt ''support_profile'' =
       Some (PVal (if config e ''profile'' = PStr ''cisco'' then PStr ''cisco'' else PNone))"
    "map_of ctxt ''multi_domain'' = Some (PVal (PBool (\<not> truthy (config e ''default-domain''))))"
    "\<forall>p\<in>set passed_through. map_of ctxt (snd p) = Some (PVal (config e (fst p)))"
    using horizon_call_returns [of e b1 b2 b3] by blast
  show "\<exists>ctxt. horizon_call e = Inr ctxt
         \<and> map fst ctxt = horizon_keys
         \<and> (\<forall>p\<in>set passed_through.
               config e (fst p) = PNone \<longrightarrow> map_of ctxt (snd p) = Some (PVal PNone))
         \<and> (config e ''webroot'' = PNone \<longrightarrow>
               map_of ctxt ''webroot'' = Some (PVal (PStr ''/'')))
         \<and> (config e ''secret'' = PNone \<longrightarrow>
               map_of ctxt ''secret'' = Some (PVal (PStr (pwgen e))))
         \<and> (config e ''profile'' = PNone \<longrightarrow>
               map_of ctxt ''support_profile'' = Some (PVal PNone))
         \<and> (config e ''default-domain'' = PNone \<longrightarrow>
               map_of ctxt ''multi_domain'' = Some (PVal (PBool True)))"
    apply (rule exI [of _ ctxt])
    using c by (simp add: py_or_def)
next
  assume "isl (bool_from_string e (config e ''offline-compression''))
       \<or> isl (bool_from_string e (config e ''debug''))
       \<or> isl (bool_from_string e (config e ''ubuntu-theme''))"
  then show "isl (horizon_call e)" by (rule horizon_call_raises)
qed

theorem horizon_keys_always_present_witness:
  "bool_from_string horizon_env (config horizon_env ''offline-compression'') = Inr True
   \<and> bool_from_string horizon_env (config horizon_env ''debug'') = Inr False
   \<and> bool_from_string horizon_env (config horizon_env ''ubuntu-theme'') = Inr True
   \<and> config horizon_env ''webroot'' = PNone
   \<and> (\<exists>ctxt. horizon_call horizon_env = Inr ctxt
         \<and> map fst ctxt = horizon_keys
         \<and> map_of ctxt ''webroot'' = Some (PVal (PStr ''/'')))
   \<and> isl (bool_from_string bare_env (config bare_env ''offline-compression''))
   \<and> isl (horizon_call bare_env)"
proof -
  have a: "bool_from_string horizon_env (config horizon_env ''offline-compression'') = Inr True
   \<and> bool_from_string horizon_env (config horizon_env ''debug'') = Inr False
   \<and> bool_from_string horizon_env (config horizon_env ''ubuntu-theme'') = Inr True"
    by (simp add: horizon_env_def bare_env_def conf_of_def)
  have w: "config horizon_env ''webroot'' = PNone"
    by (simp add: horizon_env_def bare_env_def conf_of_def)
  from horizon_keys_always_present [of horizon_env True False True] a w
  have b: "\<exists>ctxt. horizon_call horizon_env = Inr ctxt
         \<and> map fst ctxt = horizon_keys
         \<and> map_of ctxt ''webroot'' = Some (PVal (PStr ''/''))"
    by blast
  have c: "isl (bool_from_string bare_env (config bare_env ''offline-compression''))"
    by (simp add: bare_env_def)
  with horizon_keys_always_present [of bare_env True False True]
  have d: "isl (horizon_call bare_env)" by blast
  from a w b c d show ?thesis by blast
qed

end
